theory Spec2Isabelle
  imports Complex_Main
begin

section \<open>The travel planner: messages, workflow state and node updates\<close>

text \<open>
  The planner (\<^verbatim>\<open>src/app.py\<close>) is a graph of nodes over one shared state dictionary.
  Every node reads the state and returns a partial dictionary; the graph runtime writes
  each returned key over the stored one, except \<^verbatim>\<open>messages\<close>, whose reducer appends.

  Text is a list of characters with code points below 256. The language model and the
  four search tools are external: where a node calls one, the callee is a parameter.
\<close>

subsection \<open>Python values, tool calls and messages\<close>

datatype py_error = IndexError | ValueError

text \<open>The values the \<^verbatim>\<open>Travel\<close> schema admits as tool-call arguments:
  \<^verbatim>\<open>None\<close>, strings, integers and booleans.\<close>

datatype pyval = PNone | PStr string | PInt int | PBool bool

record tool_call =
  tc_name :: string
  tc_args :: "string \<rightharpoonup> pyval"
  tc_id :: string

datatype role = HumanMessage | AIMessage | SystemMessage | ToolMessage

text \<open>
  A message. \<open>name\<close> is \<open>None\<close> unless the message is the result of a tool, which
  carries the tool's name. Only assistant messages have the attribute
  \<^verbatim>\<open>tool_calls\<close>; a message without it has the empty list here, which every test
  \<^verbatim>\<open>hasattr(m, 'tool_calls') and m.tool_calls\<close> of the source treats alike.
\<close>

record message =
  role :: role
  name :: "string option"
  content :: string
  tool_calls :: "tool_call list"

subsection \<open>Floating-point values\<close>

text \<open>
  A Python \<^verbatim>\<open>float\<close> is an IEEE-754 double: a finite value (kept as the rational it
  denotes), an infinity or a NaN. The sign of zero is not kept: nothing in the program
  observes it.
\<close>

datatype pyfloat = Finite rat | PosInf | NegInf | NaN

subsection \<open>The state dictionary\<close>

text \<open>
  \<^verbatim>\<open>class State(TypedDict)\<close>. A key may be missing from the dictionary: every field
  but \<open>messages\<close> is an option, with \<open>None\<close> for a missing key. The same record type
  serves for the partial dictionary a node returns.
\<close>

record State =
  depart :: "string option"
  destination :: "string option"
  duration :: "string option"
  adults :: "int option"
  budget :: "string option"
  departureDate :: "string option"
  returnDate :: "string option"
  interests :: "string option"
  needs_directions :: "bool option"
  flight_cost_eur :: "pyfloat option"
  flight_carrier :: "string option"
  hotel_searched :: "bool option"
  flight_searched :: "bool option"
  activities_searched :: "bool option"
  directions_searched :: "bool option"
  feasibility_status :: "string option"
  remaining_budget_usd :: "pyfloat option"
  messages :: "message list"

text \<open>The empty dictionary \<^verbatim>\<open>{}\<close>.\<close>

definition empty_update :: State where
  "empty_update =
     \<lparr> depart = None, destination = None, duration = None, adults = None, budget = None,
       departureDate = None, returnDate = None, interests = None, needs_directions = None,
       flight_cost_eur = None, flight_carrier = None, hotel_searched = None,
       flight_searched = None, activities_searched = None, directions_searched = None,
       feasibility_status = None, remaining_budget_usd = None, messages = [] \<rparr>"

text \<open>One key of a returned dictionary written over the stored one.\<close>

definition write_key :: "'a option \<Rightarrow> 'a option \<Rightarrow> 'a option" where
  "write_key old new = (case new of None \<Rightarrow> old | Some v \<Rightarrow> Some v)"

text \<open>
  The graph runtime applying a node's returned dictionary \<open>u\<close> to the state \<open>st\<close>: a
  returned key replaces the stored value, a key that is not returned keeps it, and the
  returned messages are appended to the log.
\<close>

definition apply_update :: "State \<Rightarrow> State \<Rightarrow> State" where
  "apply_update st u =
     \<lparr> depart = write_key (depart st) (depart u),
       destination = write_key (destination st) (destination u),
       duration = write_key (duration st) (duration u),
       adults = write_key (adults st) (adults u),
       budget = write_key (budget st) (budget u),
       departureDate = write_key (departureDate st) (departureDate u),
       returnDate = write_key (returnDate st) (returnDate u),
       interests = write_key (interests st) (interests u),
       needs_directions = write_key (needs_directions st) (needs_directions u),
       flight_cost_eur = write_key (flight_cost_eur st) (flight_cost_eur u),
       flight_carrier = write_key (flight_carrier st) (flight_carrier u),
       hotel_searched = write_key (hotel_searched st) (hotel_searched u),
       flight_searched = write_key (flight_searched st) (flight_searched u),
       activities_searched = write_key (activities_searched st) (activities_searched u),
       directions_searched = write_key (directions_searched st) (directions_searched u),
       feasibility_status = write_key (feasibility_status st) (feasibility_status u),
       remaining_budget_usd = write_key (remaining_budget_usd st) (remaining_budget_usd u),
       messages = messages st @ messages u \<rparr>"

text \<open>\<^verbatim>\<open>state.get(key, False)\<close> read as a condition.\<close>

definition get_flag :: "bool option \<Rightarrow> bool" where
  "get_flag v = (case v of None \<Rightarrow> False | Some b \<Rightarrow> b)"

text \<open>\<^verbatim>\<open>state.get(key)\<close> of a string key read as a condition: a missing key and the
  empty string are both false.\<close>

definition get_truthy :: "string option \<Rightarrow> bool" where
  "get_truthy v = (case v of None \<Rightarrow> False | Some s \<Rightarrow> s \<noteq> [])"

text \<open>\<^verbatim>\<open>any(hasattr(m, 'name') and m.name == tool for m in state['messages'])\<close>.\<close>

definition has_result :: "string \<Rightarrow> message list \<Rightarrow> bool" where
  "has_result tool ms = list_ex (\<lambda>m. name m = Some tool) ms"

section \<open>The decision node\<close>

text \<open>
  \<^verbatim>\<open>chatbot\<close> builds one request to the language model. The request is kept as: which
  of the three prompts is built, the tools bound to the model that is invoked
  (\<^verbatim>\<open>llm_with_tools\<close> binds the list \<^verbatim>\<open>tools\<close>, the base \<^verbatim>\<open>llm\<close> binds none), and
  the messages that follow the system message. Of the prompt text, the instruction
  lines that the branch appends and the variable \<^verbatim>\<open>tool_to_call\<close> are kept; the
  lines that only print the state are not.
\<close>

definition tools :: "string list" where
  "tools = [''amadeus_flight_search'', ''quick_hotel_search'', ''google_search_activities'',
            ''get_openrouteservice_directions'', ''Travel'']"

datatype prompt =
    DirectionsPrompt
  | FinalSummaryPrompt
  | NextToolPrompt "string list" "string option"

record llm_call =
  prompt :: prompt
  bound_tools :: "string list"
  llm_messages :: "message list"

text \<open>The most recent user message, as a list of at most one message.\<close>

definition last_human :: "message list \<Rightarrow> message list" where
  "last_human ms = (case filter (\<lambda>m. role m = HumanMessage) (rev ms) of
                      [] \<Rightarrow> [] | m # _ \<Rightarrow> [m])"

text \<open>The \<^verbatim>\<open>if/elif\<close> chain that picks the single next tool.\<close>

definition next_tool :: "State \<Rightarrow> bool \<Rightarrow> bool \<Rightarrow> bool \<Rightarrow> string list \<times> string option" where
  "next_tool st flight hotel activities =
     (if \<not> get_truthy (destination st) then
        ([''Instruction: User details are missing. Call ONLY the 'Travel' tool to get them.''],
         Some ''Travel'')
      else if \<not> flight then
        ([''Instruction: Flight search is needed. Call ONLY the 'amadeus_flight_search' tool using the data provided.''],
         Some ''amadeus_flight_search'')
      else if \<not> hotel then
        ([''Instruction: Hotel search is needed. Flight search is COMPLETE.'',
          ''Call ONLY the 'quick_hotel_search' tool using the data provided.'',
          ''DO NOT call 'amadeus_flight_search' again.''],
         Some ''quick_hotel_search'')
      else if \<not> activities then
        ([''Instruction: Activity search is needed. Flight and Hotel searches are COMPLETE.'',
          ''Call ONLY the 'google_search_activities' tool using the data provided.'',
          ''DO NOT call 'amadeus_flight_search' or 'quick_hotel_search' again.''],
         Some ''google_search_activities'')
      else
        ([''Instruction: All standard searches are complete. DO NOT call any tools now.''],
         None))"

definition chatbot :: "State \<Rightarrow> llm_call" where
  "chatbot st =
     (let flight = (get_flag (flight_searched st)
                      \<or> has_result ''amadeus_flight_search'' (messages st));
          hotel = (get_flag (hotel_searched st)
                      \<or> has_result ''quick_hotel_search'' (messages st));
          activities = (get_flag (activities_searched st)
                      \<or> has_result ''google_search_activities'' (messages st));
          needs_directions_flag = get_flag (needs_directions st);
          directions = (get_flag (directions_searched st)
                      \<or> has_result ''get_openrouteservice_directions'' (messages st))
      in if flight \<and> hotel \<and> activities then
           (if needs_directions_flag \<and> \<not> directions then
              \<lparr> prompt = DirectionsPrompt, bound_tools = tools, llm_messages = messages st \<rparr>
            else
              \<lparr> prompt = FinalSummaryPrompt, bound_tools = [], llm_messages = messages st \<rparr>)
         else
           (case next_tool st flight hotel activities of
              (instructions, tool_to_call) \<Rightarrow>
                \<lparr> prompt = NextToolPrompt
                    (instructions @
                     [''Your response MUST be a call to the tool '' @ [CHR 0x27] @
                        (case tool_to_call of None \<Rightarrow> ''None'' | Some t \<Rightarrow> t) @
                        [CHR 0x27] @ '' if specified, otherwise no tool call.'',
                      ''Provide ONLY the tool call, no other text.''])
                    tool_to_call,
                  bound_tools = tools,
                  llm_messages = (if tool_to_call = Some ''Travel''
                                  then last_human (messages st) else []) \<rparr>))"

section \<open>Routing after the model's answer\<close>

datatype route = END | To_tools | To_chatbot

text \<open>Assigning \<^verbatim>\<open>last_message.tool_calls\<close>: the last message of the log is the
  object that is mutated.\<close>

definition set_last_tool_calls :: "tool_call list \<Rightarrow> State \<Rightarrow> State" where
  "set_last_tool_calls cs st =
     st\<lparr> messages := butlast (messages st) @ [(last (messages st))\<lparr> tool_calls := cs \<rparr>] \<rparr>"

text \<open>
  \<^verbatim>\<open>tools_condition\<close> returns the name of the next node and, since it assigns to the last
  message, the state it leaves behind. \<^verbatim>\<open>state['messages'][-1]\<close> raises on an empty
  log.
\<close>

definition tools_condition :: "State \<Rightarrow> py_error + (route \<times> State)" where
  "tools_condition st =
     (if messages st = [] then Inl IndexError
      else
        let last_message = last (messages st);
            has_flight = get_flag (flight_searched st);
            has_hotel = get_flag (hotel_searched st);
            has_activities = get_flag (activities_searched st);
            needs = get_flag (needs_directions st);
            has_directions = get_flag (directions_searched st);
            all_standard_searches_done = (has_flight \<and> has_hotel \<and> has_activities);
            directions_logic_complete = (\<not> needs \<or> (needs \<and> has_directions))
        in if all_standard_searches_done \<and> directions_logic_complete then
             (if content last_message \<noteq> [] \<and> \<not> (tool_calls last_message \<noteq> []) then
                Inr (END, st)
              else Inr (To_chatbot, set_last_tool_calls [] st))
           else if tool_calls last_message \<noteq> [] then
             (if length (tool_calls last_message) > 1 then
                Inr (To_tools, set_last_tool_calls [hd (tool_calls last_message)] st)
              else Inr (To_tools, st))
           else Inr (To_chatbot, st))"

section \<open>Text and regular expressions\<close>

subsection \<open>Character classes\<close>

text \<open>The classes \<^verbatim>\<open>\d\<close>, \<^verbatim>\<open>[A-Z]\<close> and \<^verbatim>\<open>\s\<close> of Python's \<^verbatim>\<open>re\<close> on code points
  below 256; \<^verbatim>\<open>\s\<close> is also what \<^verbatim>\<open>str.strip()\<close> removes.\<close>

definition is_digit :: "char \<Rightarrow> bool" where
  "is_digit c \<longleftrightarrow> c \<in> set ''0123456789''"

definition is_upper :: "char \<Rightarrow> bool" where
  "is_upper c \<longleftrightarrow> c \<in> set ''ABCDEFGHIJKLMNOPQRSTUVWXYZ''"

definition is_space :: "char \<Rightarrow> bool" where
  "is_space c \<longleftrightarrow>
     c \<in> set [CHR 0x09, CHR 0x0A, CHR 0x0B, CHR 0x0C, CHR 0x0D, CHR 0x1C, CHR 0x1D,
              CHR 0x1E, CHR 0x1F, CHR 0x20, CHR 0x85, CHR 0xA0]"

text \<open>\<^verbatim>\<open>s.strip()\<close>.\<close>

definition strip :: "string \<Rightarrow> string" where
  "strip s = rev (dropWhile is_space (rev (dropWhile is_space s)))"

text \<open>\<^verbatim>\<open>sub in s\<close> on strings.\<close>

definition starts_with :: "string \<Rightarrow> string \<Rightarrow> bool" where
  "starts_with s p \<longleftrightarrow> take (length p) s = p"

fun contains :: "string \<Rightarrow> string \<Rightarrow> bool" where
  "contains [] sub = (sub = [])"
| "contains (c # cs) sub = (starts_with (c # cs) sub \<or> contains cs sub)"

subsection \<open>The price pattern\<close>

text \<open>
  \<^verbatim>\<open>(\d+\.?\d*)\s*([A-Z]{3})\<close> matched at the start of \<open>s\<close>: the longest run of digits,
  a dot if one follows and then the longest run of digits, the longest run of white
  space, and three capital letters. The four classes are disjoint, so the greedy choice
  is the only one that can succeed and the matcher never has to give characters back.
  The result is the two groups.
\<close>

definition match_price :: "string \<Rightarrow> (string \<times> string) option" where
  "match_price s =
     (let d1 = takeWhile is_digit s; r1 = dropWhile is_digit s in
      if d1 = [] then None
      else
        let (number, r2) =
              (case r1 of
                 c # t \<Rightarrow> if c = CHR ''.''
                          then (d1 @ [c] @ takeWhile is_digit t, dropWhile is_digit t)
                          else (d1, r1)
               | [] \<Rightarrow> (d1, r1));
            r3 = dropWhile is_space r2
        in if 3 \<le> length r3 \<and> list_all is_upper (take 3 r3)
           then Some (number, take 3 r3) else None)"

text \<open>\<^verbatim>\<open>re.search\<close>: the match at the leftmost position that has one.\<close>

fun search_price :: "string \<Rightarrow> (string \<times> string) option" where
  "search_price [] = None"
| "search_price (c # cs) =
     (case match_price (c # cs) of Some g \<Rightarrow> Some g | None \<Rightarrow> search_price cs)"

subsection \<open>The carrier pattern\<close>

text \<open>
  \<^verbatim>\<open>(?:Operating Airline\(s\)|Validating Airline):\s*([^(\n|]+)\<close>. After the label and
  the colon, \<^verbatim>\<open>\s*\<close> first takes the longest run of white space; the group needs at
  least one character that is none of \<^verbatim>\<open>(\<close>, newline and \<^verbatim>\<open>|\<close>, and when there is
  none the matcher gives the white space back one character at a time.
\<close>

definition carrier_char :: "char \<Rightarrow> bool" where
  "carrier_char c \<longleftrightarrow> c \<notin> set [CHR ''('', CHR 0x0A, CHR ''|'']"

text \<open>The group, when \<^verbatim>\<open>\s*\<close> has taken \<open>k\<close> characters of \<open>r\<close>.\<close>

definition carrier_group :: "nat \<Rightarrow> string \<Rightarrow> string option" where
  "carrier_group k r =
     (let g = takeWhile carrier_char (drop k r) in if g = [] then None else Some g)"

fun give_back :: "nat \<Rightarrow> string \<Rightarrow> string option" where
  "give_back 0 r = carrier_group 0 r"
| "give_back (Suc k) r =
     (case carrier_group (Suc k) r of Some g \<Rightarrow> Some g | None \<Rightarrow> give_back k r)"

definition after_label :: "string \<Rightarrow> string option" where
  "after_label s =
     (if starts_with s ''Operating Airline(s):'' then Some (drop 21 s)
      else if starts_with s ''Validating Airline:'' then Some (drop 19 s)
      else None)"

definition match_carrier :: "string \<Rightarrow> string option" where
  "match_carrier s =
     (case after_label s of
        None \<Rightarrow> None
      | Some r \<Rightarrow> give_back (length (takeWhile is_space r)) r)"

fun search_carrier_from :: "string \<Rightarrow> string option" where
  "search_carrier_from [] = None"
| "search_carrier_from (c # cs) =
     (case match_carrier (c # cs) of Some g \<Rightarrow> Some g | None \<Rightarrow> search_carrier_from cs)"

subsection \<open>The budget pattern\<close>

text \<open>\<^verbatim>\<open>re.search(r'(\d+)', budget_str)\<close>: the first longest run of digits.\<close>

definition search_digits :: "string \<Rightarrow> string option" where
  "search_digits s =
     (let r = dropWhile (\<lambda>c. \<not> is_digit c) s in
      if r = [] then None else Some (takeWhile is_digit r))"

section \<open>Floating-point arithmetic\<close>

text \<open>The number of binary digits of a positive integer.\<close>

function bitlen :: "int \<Rightarrow> int" where
  "bitlen n = (if n \<le> 0 then 0 else 1 + bitlen (n div 2))"
  by pat_completeness auto
termination
  by (relation "measure nat") auto

declare bitlen.simps [simp del]

definition pow2 :: "int \<Rightarrow> rat" where
  "pow2 e = (if 0 \<le> e then 2 ^ nat e else 1 / 2 ^ nat (- e))"

text \<open>For \<open>x > 0\<close>, the integer \<open>k\<close> with \<open>2\<^sup>k \<le> x < 2\<^sup>k\<^sup>+\<^sup>1\<close>.\<close>

definition floor_log2 :: "rat \<Rightarrow> int" where
  "floor_log2 x =
     (case quotient_of x of
        (p, q) \<Rightarrow>
          let d = bitlen p - bitlen q
          in if pow2 d \<le> x then d else d - 1)"

text \<open>The nearest integer, a tie going to the even one.\<close>

definition round_half_even :: "rat \<Rightarrow> int" where
  "round_half_even x =
     (let f = \<lfloor>x\<rfloor>; r = x - of_int f
      in if r < 1 / 2 then f
         else if 1 / 2 < r then f + 1
         else if even f then f else f + 1)"

text \<open>
  The double nearest to a rational, ties to even: 53 significant bits, the least
  exponent that of the subnormal numbers, and an infinity when the rounded value
  reaches \<open>2\<^sup>1\<^sup>0\<^sup>2\<^sup>4\<close>. Every arithmetic operation of Python on finite floats, and
  \<^verbatim>\<open>float()\<close> of a decimal literal, is the exact result rounded this way.
\<close>

definition round_double :: "rat \<Rightarrow> pyfloat" where
  "round_double x =
     (if x = 0 then Finite 0
      else
        let e = max (floor_log2 \<bar>x\<bar> - 52) (- 1074);
            m = round_half_even (\<bar>x\<bar> / pow2 e);
            r = of_int m * pow2 e
        in if pow2 1024 \<le> r then (if 0 < x then PosInf else NegInf)
           else Finite (if 0 < x then r else - r))"

text \<open>\<^verbatim>\<open>x * y\<close> on floats.\<close>

fun float_mul :: "pyfloat \<Rightarrow> pyfloat \<Rightarrow> pyfloat" where
  "float_mul (Finite a) (Finite b) = round_double (a * b)"
| "float_mul NaN y = NaN"
| "float_mul x NaN = NaN"
| "float_mul (Finite a) y =
     (if a = 0 then NaN else if (0 < a) = (y = PosInf) then PosInf else NegInf)"
| "float_mul x (Finite b) =
     (if b = 0 then NaN else if (0 < b) = (x = PosInf) then PosInf else NegInf)"
| "float_mul x y = (if x = y then PosInf else NegInf)"

text \<open>\<^verbatim>\<open>x - y\<close> on floats.\<close>

fun float_sub :: "pyfloat \<Rightarrow> pyfloat \<Rightarrow> pyfloat" where
  "float_sub (Finite a) (Finite b) = round_double (a - b)"
| "float_sub NaN y = NaN"
| "float_sub x NaN = NaN"
| "float_sub PosInf y = (if y = PosInf then NaN else PosInf)"
| "float_sub NegInf y = (if y = NegInf then NaN else NegInf)"
| "float_sub (Finite a) PosInf = NegInf"
| "float_sub (Finite a) NegInf = PosInf"

text \<open>\<^verbatim>\<open>x >= y\<close> on floats: false when either is a NaN.\<close>

fun float_ge :: "pyfloat \<Rightarrow> pyfloat \<Rightarrow> bool" where
  "float_ge (Finite a) (Finite b) = (b \<le> a)"
| "float_ge NaN y = False"
| "float_ge x NaN = False"
| "float_ge PosInf y = True"
| "float_ge x NegInf = True"
| "float_ge x y = False"

text \<open>The value of a string of decimal digits.\<close>

definition dec_value :: "string \<Rightarrow> int" where
  "dec_value s = foldl (\<lambda>n c. 10 * n + (of_char c - 48)) 0 s"

text \<open>
  \<^verbatim>\<open>float(s)\<close> on the literals this program passes to it: digits, then possibly a dot
  and more digits. The literal's exact value is rounded to the nearest double; too large
  a literal gives an infinity, not an exception. On any other string the result here
  is \<^verbatim>\<open>ValueError\<close>; \<^verbatim>\<open>float\<close> accepts more (signs, exponents, surrounding white
  space), but the groups of the two patterns are never of those forms.
\<close>

definition float_of_str :: "string \<Rightarrow> py_error + pyfloat" where
  "float_of_str s =
     (let ip = takeWhile is_digit s; r = dropWhile is_digit s in
      if ip = [] then Inl ValueError
      else if r = [] then Inr (round_double (of_int (dec_value ip)))
      else if hd r = CHR ''.'' \<and> list_all is_digit (tl r) then
        Inr (round_double (of_int (dec_value (ip @ tl r)) / 10 ^ length (tl r)))
      else Inl ValueError)"

section \<open>The budget stage\<close>

definition EUR_TO_USD_RATE :: pyfloat where
  "EUR_TO_USD_RATE = round_double (107 / 100)"

definition MIN_GROUND_COSTS_USD :: pyfloat where
  "MIN_GROUND_COSTS_USD = Finite 300"

text \<open>The dictionary returned on each of the three error paths.\<close>

definition error_result :: State where
  "error_result =
     empty_update\<lparr> feasibility_status := Some ''ERROR'', flight_cost_eur := Some (Finite 0),
                   flight_carrier := Some ''Unknown'',
                   remaining_budget_usd := Some (Finite 0), flight_searched := Some True \<rparr>"

text \<open>
  The first \<^verbatim>\<open>try\<close> block: price and currency, carrier, price in dollars. \<open>Inl\<close> is an
  exception raised inside the block, which the \<^verbatim>\<open>except\<close> clause turns into the error
  result.
\<close>

definition parse_price :: "string \<Rightarrow> py_error + (pyfloat \<times> string)" where
  "parse_price text =
     (case search_price text of
        None \<Rightarrow> Inr (Finite 0, ''EUR'')
      | Some (number, cur) \<Rightarrow>
          (case float_of_str number of Inl e \<Rightarrow> Inl e | Inr p \<Rightarrow> Inr (p, cur)))"

definition parse_carrier :: "string \<Rightarrow> string" where
  "parse_carrier text =
     (case search_carrier_from text of Some g \<Rightarrow> strip g | None \<Rightarrow> ''Unknown'')"

definition price_usd :: "pyfloat \<Rightarrow> string \<Rightarrow> pyfloat" where
  "price_usd flight_price_eur currency =
     (if currency = ''EUR'' then float_mul flight_price_eur EUR_TO_USD_RATE
      else flight_price_eur)"

text \<open>The second \<^verbatim>\<open>try\<close> block: the user's budget, 0.0 when there is no integer in it.\<close>

definition user_budget :: "string option \<Rightarrow> pyfloat" where
  "user_budget b =
     (let budget_str = (case b of None \<Rightarrow> ''0 USD'' | Some s \<Rightarrow> s) in
      case search_digits budget_str of
        None \<Rightarrow> Finite 0
      | Some ds \<Rightarrow> (case float_of_str ds of Inl e \<Rightarrow> Finite 0 | Inr v \<Rightarrow> v))"

definition flight_messages :: "State \<Rightarrow> message list" where
  "flight_messages st = filter (\<lambda>m. name m = Some ''amadeus_flight_search'') (messages st)"

definition calculate_budget_status :: "State \<Rightarrow> State" where
  "calculate_budget_status st =
     (if flight_messages st = [] then error_result
      else
        let last_flight = last (flight_messages st) in
        if contains (content last_flight) ''not configured''
           \<or> contains (content last_flight) ''API Error''
        then error_result
        else
          (case parse_price (content last_flight) of
             Inl e \<Rightarrow> error_result
           | Inr (flight_price_eur, currency) \<Rightarrow>
               let carrier = parse_carrier (content last_flight);
                   flight_price_usd = price_usd flight_price_eur currency;
                   user_budget_usd = user_budget (budget st);
                   remaining = float_sub user_budget_usd flight_price_usd;
                   status = (if float_ge remaining MIN_GROUND_COSTS_USD
                             then ''FEASIBLE'' else ''OVER_BUDGET'')
               in empty_update\<lparr> flight_cost_eur := Some flight_price_eur,
                                flight_carrier := Some carrier,
                                feasibility_status := Some status,
                                remaining_budget_usd := Some remaining,
                                flight_searched := Some True \<rparr>))"

section \<open>The extraction stage\<close>

subsection \<open>Coercions of Python values\<close>

text \<open>The truth value of a Python value.\<close>

fun truthy :: "pyval \<Rightarrow> bool" where
  "truthy PNone = False"
| "truthy (PStr s) = (s \<noteq> [])"
| "truthy (PInt n) = (n \<noteq> 0)"
| "truthy (PBool b) = b"

text \<open>One decimal digit as a character, and \<^verbatim>\<open>str(n)\<close> of an integer.\<close>

definition digit_char :: "int \<Rightarrow> char" where
  "digit_char d = char_of (48 + d)"

function str_nat :: "int \<Rightarrow> string" where
  "str_nat n = (if n < 10 then [digit_char n] else str_nat (n div 10) @ [digit_char (n mod 10)])"
  by pat_completeness auto
termination
  by (relation "measure nat") auto

declare str_nat.simps [simp del]

definition str_int :: "int \<Rightarrow> string" where
  "str_int n = (if n < 0 then CHR ''-'' # str_nat (- n) else str_nat n)"

text \<open>\<^verbatim>\<open>str(value)\<close>.\<close>

fun py_str :: "pyval \<Rightarrow> string" where
  "py_str PNone = ''None''"
| "py_str (PStr s) = s"
| "py_str (PInt n) = str_int n"
| "py_str (PBool b) = (if b then ''True'' else ''False'')"

text \<open>
  \<^verbatim>\<open>int(s)\<close> of a string: white space around the literal is dropped (for \<^verbatim>\<open>int\<close>
  the code points 28 to 31 are not white space), then comes an optional sign and decimal
  digits, where single underscores may stand between digits. Anything else raises
  \<^verbatim>\<open>ValueError\<close>.
\<close>

definition is_int_space :: "char \<Rightarrow> bool" where
  "is_int_space c \<longleftrightarrow>
     c \<in> set [CHR 0x09, CHR 0x0A, CHR 0x0B, CHR 0x0C, CHR 0x0D, CHR 0x20, CHR 0x85, CHR 0xA0]"

fun int_digits :: "string \<Rightarrow> bool" where
  "int_digits [] = False"
| "int_digits [c] = is_digit c"
| "int_digits (c # d # cs) =
     (is_digit c \<and> (if d = CHR ''_'' then int_digits cs else int_digits (d # cs)))"

definition int_of_str :: "string \<Rightarrow> py_error + int" where
  "int_of_str s =
     (let t = rev (dropWhile is_int_space (rev (dropWhile is_int_space s)));
          (negative, body) =
             (case t of
                [] \<Rightarrow> (False, [])
              | c # r \<Rightarrow> if c = CHR ''-'' then (True, r)
                         else if c = CHR ''+'' then (False, r) else (False, t))
      in if int_digits body
         then Inr ((if negative then - 1 else 1) * dec_value (filter is_digit body))
         else Inl ValueError)"

text \<open>\<^verbatim>\<open>int(value)\<close>.\<close>

fun py_int :: "pyval \<Rightarrow> py_error + int" where
  "py_int PNone = Inl ValueError"
| "py_int (PStr s) = int_of_str s"
| "py_int (PInt n) = Inr n"
| "py_int (PBool b) = Inr (if b then 1 else 0)"

text \<open>\<^verbatim>\<open>s.lower()\<close> on code points below 256.\<close>

definition lower_char :: "char \<Rightarrow> char" where
  "lower_char c =
     (let n = (of_char c :: nat)
      in if (65 \<le> n \<and> n \<le> 90) \<or> (192 \<le> n \<and> n \<le> 222 \<and> n \<noteq> 215)
         then char_of (n + 32) else c)"

definition lower :: "string \<Rightarrow> string" where
  "lower s = map lower_char s"

subsection \<open>Dates\<close>

text \<open>
  \<^verbatim>\<open>datetime.strptime(s, '%Y-%m-%d')\<close>. The format is the regular expression
  \<^verbatim>\<open>(\d\d\d\d)-(1[0-2]|0[1-9]|[1-9])-(3[0-1]|[1-2]\d|0[1-9]|[1-9]| [1-9])\<close>,
  matched at the start of the string; text left over after the day raises, and so does
  a year 0 or a day the month does not have. \<open>None\<close> stands for the exception.
\<close>

definition in_range :: "char \<Rightarrow> char \<Rightarrow> char \<Rightarrow> bool" where
  "in_range lo hi c \<longleftrightarrow> (of_char lo :: nat) \<le> of_char c \<and> (of_char c :: nat) \<le> of_char hi"

text \<open>The month alternatives, in the order of the pattern: the month and the rest.\<close>

definition match_month :: "string \<Rightarrow> (int \<times> string) list" where
  "match_month s =
     (case s of
        a # b # r \<Rightarrow>
          (if a = CHR ''1'' \<and> in_range CHR ''0'' CHR ''2'' b then [(dec_value [a, b], r)] else []) @
          (if a = CHR ''0'' \<and> in_range CHR ''1'' CHR ''9'' b then [(dec_value [a, b], r)] else []) @
          (if in_range CHR ''1'' CHR ''9'' a then [(dec_value [a], b # r)] else [])
      | [a] \<Rightarrow> (if in_range CHR ''1'' CHR ''9'' a then [(dec_value [a], [])] else [])
      | [] \<Rightarrow> [])"

text \<open>The day alternatives, in the order of the pattern.\<close>

definition match_day :: "string \<Rightarrow> (int \<times> string) list" where
  "match_day s =
     (case s of
        a # b # r \<Rightarrow>
          (if a = CHR ''3'' \<and> in_range CHR ''0'' CHR ''1'' b then [(dec_value [a, b], r)] else []) @
          (if in_range CHR ''1'' CHR ''2'' a \<and> is_digit b then [(dec_value [a, b], r)] else []) @
          (if a = CHR ''0'' \<and> in_range CHR ''1'' CHR ''9'' b then [(dec_value [a, b], r)] else []) @
          (if in_range CHR ''1'' CHR ''9'' a then [(dec_value [a], b # r)] else []) @
          (if a = CHR '' '' \<and> in_range CHR ''1'' CHR ''9'' b then [(dec_value [b], r)] else [])
      | [a] \<Rightarrow> (if in_range CHR ''1'' CHR ''9'' a then [(dec_value [a], [])] else [])
      | [] \<Rightarrow> [])"

text \<open>
  The match of the whole pattern: the first month alternative that is followed by a
  hyphen and a day; of the day alternatives the first one, since the pattern ends
  there.
\<close>

definition match_date :: "string \<Rightarrow> (int \<times> int \<times> int \<times> string) option" where
  "match_date s =
     (if 5 \<le> length s \<and> list_all is_digit (take 4 s) \<and> s ! 4 = CHR ''-'' then
        (case concat (map (\<lambda>(m, r).
                 (case r of
                    c # r' \<Rightarrow> if c = CHR ''-''
                              then (case match_day r' of
                                      [] \<Rightarrow> []
                                    | (d, rest) # _ \<Rightarrow> [(dec_value (take 4 s), m, d, rest)])
                              else []
                  | [] \<Rightarrow> []))
               (match_month (drop 5 s))) of
           [] \<Rightarrow> None
         | g # _ \<Rightarrow> Some g)
      else None)"

definition is_leap :: "int \<Rightarrow> bool" where
  "is_leap y \<longleftrightarrow> y mod 4 = 0 \<and> (y mod 100 \<noteq> 0 \<or> y mod 400 = 0)"

definition days_in_month :: "int \<Rightarrow> int \<Rightarrow> int" where
  "days_in_month y m =
     (if m = 2 \<and> is_leap y then 29
      else [31, 28, 31, 30, 31, 30, 31, 31, 30, 31, 30, 31] ! nat (m - 1))"

definition days_before_year :: "int \<Rightarrow> int" where
  "days_before_year y = (y - 1) * 365 + (y - 1) div 4 - (y - 1) div 100 + (y - 1) div 400"

definition days_before_month :: "int \<Rightarrow> int \<Rightarrow> int" where
  "days_before_month y m =
     [0, 31, 59, 90, 120, 151, 181, 212, 243, 273, 304, 334] ! nat (m - 1)
       + (if 2 < m \<and> is_leap y then 1 else 0)"

text \<open>The day number of a date, counted from 1 January of year 1.\<close>

definition ordinal :: "int \<Rightarrow> int \<Rightarrow> int \<Rightarrow> int" where
  "ordinal y m d = days_before_year y + days_before_month y m + d"

text \<open>The parsed date as its day number; midnight of that day.\<close>

definition strptime_ymd :: "string \<Rightarrow> int option" where
  "strptime_ymd s =
     (case match_date s of
        None \<Rightarrow> None
      | Some (y, m, d, rest) \<Rightarrow>
          if rest \<noteq> [] then None
          else if y < 1 \<or> days_in_month y m < d then None
          else Some (ordinal y m d))"

subsection \<open>\<open>update_state\<close>\<close>

text \<open>The test \<^verbatim>\<open>key in extracted_data\<close>, \<^verbatim>\<open>value is not None and value != ''\<close>: the
  value when it passes.\<close>

definition supplied :: "(string \<rightharpoonup> pyval) \<Rightarrow> string \<Rightarrow> pyval option" where
  "supplied extracted_data source_key =
     (case extracted_data source_key of
        None \<Rightarrow> None
      | Some PNone \<Rightarrow> None
      | Some (PStr s) \<Rightarrow> if s = [] then None else Some (PStr s)
      | Some v \<Rightarrow> Some v)"

text \<open>The branch for \<^verbatim>\<open>adults\<close>: \<^verbatim>\<open>int(value) if value else 1\<close>, which may raise.\<close>

definition coerce_adults :: "pyval option \<Rightarrow> py_error + int option" where
  "coerce_adults v =
     (case v of
        None \<Rightarrow> Inr None
      | Some value \<Rightarrow>
          if truthy value
          then (case py_int value of Inl e \<Rightarrow> Inl e | Inr n \<Rightarrow> Inr (Some n))
          else Inr (Some 1))"

text \<open>The branch for \<^verbatim>\<open>needs_directions\<close>.\<close>

definition coerce_directions :: "pyval option \<Rightarrow> bool option" where
  "coerce_directions v =
     (case v of
        None \<Rightarrow> None
      | Some (PStr s) \<Rightarrow> Some (lower s = ''true'')
      | Some value \<Rightarrow> Some (truthy value))"

text \<open>The duration, when the extraction supplies none.\<close>

definition derive_duration :: "string option \<Rightarrow> string option \<Rightarrow> string" where
  "derive_duration dep_text ret_text =
     (case (dep_text, ret_text) of
        (Some d, Some r) \<Rightarrow>
          (case (strptime_ymd d, strptime_ymd r) of
             (Some dep, Some ret) \<Rightarrow>
               let days = ret - dep
               in if days > 0 then str_int days @ '' days'' else ''Invalid dates''
           | _ \<Rightarrow> ''Date parse error'')
      | (Some d, None) \<Rightarrow> ''Flexible / One-way''
      | (None, _) \<Rightarrow> ''Not specified'')"

text \<open>
  The body of the \<^verbatim>\<open>try\<close> block for one \<^verbatim>\<open>Travel\<close> call: the dictionary \<^verbatim>\<open>new_state\<close> is built from the
  arguments of the call alone. An exception makes the function return \<^verbatim>\<open>{}\<close>; the only
  operation of the block that can raise is \<^verbatim>\<open>int(value)\<close>.
\<close>

definition new_state :: "(string \<rightharpoonup> pyval) \<Rightarrow> State" where
  "new_state extracted_data =
     (case coerce_adults (supplied extracted_data ''adults'') of
        Inl e \<Rightarrow> empty_update
      | Inr adults_value \<Rightarrow>
          let str_field = (\<lambda>k. map_option py_str (supplied extracted_data k));
              dep = str_field ''departureDate'';
              ret = str_field ''returnDate''
          in empty_update
               \<lparr> depart := str_field ''depart'',
                 destination := str_field ''destination'',
                 duration := Some (case str_field ''duration'' of
                                     Some d \<Rightarrow> d
                                   | None \<Rightarrow> derive_duration dep ret),
                 adults := Some (case adults_value of Some n \<Rightarrow> n | None \<Rightarrow> 1),
                 budget := str_field ''budget'',
                 departureDate := dep,
                 returnDate := ret,
                 interests := Some (case str_field ''interests'' of
                                      Some i \<Rightarrow> i
                                    | None \<Rightarrow> ''general sightseeing''),
                 needs_directions :=
                   Some (case coerce_directions (supplied extracted_data ''needs_directions'') of
                           Some b \<Rightarrow> b
                         | None \<Rightarrow> False) \<rparr>)"

text \<open>The \<^verbatim>\<open>Travel\<close> call the two loops reach first: messages from the latest back, the
  calls of one message in their order.\<close>

definition latest_Travel_call :: "message list \<Rightarrow> tool_call option" where
  "latest_Travel_call ms =
     find (\<lambda>tool_call. tc_name tool_call = ''Travel'')
       (concat (map tool_calls (rev (filter (\<lambda>m. tool_calls m \<noteq> []) ms))))"

definition update_state :: "State \<Rightarrow> State" where
  "update_state st =
     (case latest_Travel_call (messages st) of
        None \<Rightarrow> empty_update
      | Some tool_call \<Rightarrow> new_state (tc_args tool_call))"

section \<open>The tool node\<close>

text \<open>
  The prebuilt \<^verbatim>\<open>ToolNode\<close> runs every tool call of the last message of the state and
  returns one result message for each, in their order. Running one call is a parameter:
  \<open>run_tool\<close> gives the result message of a call, or \<open>Inl\<close> with the text of an exception
  that escapes the node.
\<close>

fun run_calls :: "(tool_call \<Rightarrow> string + message) \<Rightarrow> tool_call list \<Rightarrow> string + message list" where
  "run_calls run_tool [] = Inr []"
| "run_calls run_tool (c # cs) =
     (case run_tool c of
        Inl e \<Rightarrow> Inl e
      | Inr m \<Rightarrow> (case run_calls run_tool cs of Inl e \<Rightarrow> Inl e | Inr ms \<Rightarrow> Inr (m # ms)))"

definition tool_node_invoke :: "(tool_call \<Rightarrow> string + message) \<Rightarrow> State \<Rightarrow> string + message list" where
  "tool_node_invoke run_tool st = run_calls run_tool (tool_calls (last (messages st)))"

definition no_tool_message :: message where
  "no_tool_message =
     \<lparr> role = ToolMessage, name = None, content = ''No tool to execute.'', tool_calls = [] \<rparr>"

definition error_message :: "string \<Rightarrow> message" where
  "error_message e =
     \<lparr> role = ToolMessage, name = None, content = ''Error executing tool: '' @ e,
       tool_calls = [] \<rparr>"

text \<open>
  \<^verbatim>\<open>debug_tool_node\<close> returns the dictionary for the graph and, since it assigns to the
  last message, the state it leaves behind. The local variable \<^verbatim>\<open>tool_calls\<close> keeps the
  list as it was read; the tool node reads the list from the state, after the
  assignment.
\<close>

definition debug_tool_node ::
  "(tool_call \<Rightarrow> string + message) \<Rightarrow> State \<Rightarrow> py_error + (State \<times> State)" where
  "debug_tool_node run_tool st =
     (if messages st = [] then Inl IndexError
      else
        let calls = tool_calls (last (messages st));
            st' = (if calls \<noteq> [] \<and> length calls > 1
                   then set_last_tool_calls [hd calls] st else st)
        in if calls = [] then Inr (empty_update\<lparr> messages := [no_tool_message] \<rparr>, st')
           else
             (case tool_node_invoke run_tool st' of
                Inr result \<Rightarrow> Inr (empty_update\<lparr> messages := result \<rparr>, st')
              | Inl e \<Rightarrow>
                  Inr (empty_update\<lparr> messages := messages st' @ [error_message e] \<rparr>, st')))"

section \<open>The other nodes and the runs of a thread\<close>

definition mark_hotel_complete :: "State \<Rightarrow> State" where
  "mark_hotel_complete st = empty_update\<lparr> hotel_searched := Some True \<rparr>"

definition mark_activities_complete :: "State \<Rightarrow> State" where
  "mark_activities_complete st = empty_update\<lparr> activities_searched := Some True \<rparr>"

definition mark_directions_done :: "State \<Rightarrow> State" where
  "mark_directions_done st = empty_update\<lparr> directions_searched := Some True \<rparr>"

text \<open>
  One step of a thread: a node of the graph runs and its dictionary is applied, the
  routing function between the decision node and the tool node runs, or the user adds a
  message for a new turn. What the model answers, what the tool node returns and what
  the user writes are arbitrary.
\<close>

datatype step =
    Chatbot message
  | Tools_condition
  | Tools "message list"
  | Extract_data
  | Budget_check
  | Mark_hotel_done
  | Mark_activities_done
  | Mark_directions_done
  | User_turn message

fun run_step :: "State \<Rightarrow> step \<Rightarrow> State" where
  "run_step st (Chatbot result) = apply_update st (empty_update\<lparr> messages := [result] \<rparr>)"
| "run_step st Tools_condition =
     (case tools_condition st of Inl e \<Rightarrow> st | Inr (next_node, st') \<Rightarrow> st')"
| "run_step st (Tools result) = apply_update st (empty_update\<lparr> messages := result \<rparr>)"
| "run_step st Extract_data = apply_update st (update_state st)"
| "run_step st Budget_check = apply_update st (calculate_budget_status st)"
| "run_step st Mark_hotel_done = apply_update st (mark_hotel_complete st)"
| "run_step st Mark_activities_done = apply_update st (mark_activities_complete st)"
| "run_step st Mark_directions_done = apply_update st (mark_directions_done st)"
| "run_step st (User_turn m) = apply_update st (empty_update\<lparr> messages := [m] \<rparr>)"

definition run_steps :: "State \<Rightarrow> step list \<Rightarrow> State" where
  "run_steps st steps = foldl run_step st steps"

section \<open>The specification's vocabulary and example states\<close>

text \<open>All required flags are true; the directions flag is required only when directions
  are needed.\<close>

definition required_flags_done :: "State \<Rightarrow> bool" where
  "required_flags_done st \<longleftrightarrow>
     flight_searched st = Some True \<and> hotel_searched st = Some True \<and>
     activities_searched st = Some True \<and>
     (needs_directions st = Some True \<longrightarrow> directions_searched st = Some True)"

text \<open>A search is recorded as done: by its flag, or by a result message of its tool in
  the log.\<close>

definition recorded_done :: "bool option \<Rightarrow> string \<Rightarrow> message list \<Rightarrow> bool" where
  "recorded_done flag tool ms \<longleftrightarrow> flag = Some True \<or> (\<exists>m \<in> set ms. name m = Some tool)"

definition plain_message :: "role \<Rightarrow> string \<Rightarrow> message" where
  "plain_message r txt = \<lparr> role = r, name = None, content = txt, tool_calls = [] \<rparr>"

text \<open>A thread whose three searches are flagged done although no destination was ever
  extracted.\<close>

definition searches_done_state :: State where
  "searches_done_state =
     empty_update\<lparr> flight_searched := Some True, hotel_searched := Some True,
                   activities_searched := Some True,
                   messages := [plain_message HumanMessage ''plan a trip'']\<rparr>"

definition final_answer_state :: State where
  "final_answer_state =
     searches_done_state\<lparr> messages := [plain_message AIMessage ''Your plan: ...''] \<rparr>"

definition empty_answer_state :: State where
  "empty_answer_state = searches_done_state\<lparr> messages := [plain_message AIMessage []] \<rparr>"

definition new_thread_state :: State where
  "new_thread_state = empty_update\<lparr> directions_searched := Some True, hotel_searched := Some True,
      messages := [plain_message HumanMessage ''5 days Morocco, $2000, history and food'']\<rparr>"

text \<open>The finite doubles: an integer of fewer than 54 bits times a power of two whose
  exponent is at least that of the subnormal numbers, below \<open>2\<^sup>1\<^sup>0\<^sup>2\<^sup>4\<close> in magnitude.\<close>

definition representable :: "rat \<Rightarrow> bool" where
  "representable r \<longleftrightarrow>
     (\<exists>m e. r = of_int m * pow2 e \<and> \<bar>m\<bar> < 2 ^ 53 \<and> - 1074 \<le> e) \<and> \<bar>r\<bar> < pow2 1024"

text \<open>The text of the latest result of the flight search in the log, if there is one.\<close>

definition latest_flight_text :: "State \<Rightarrow> string option" where
  "latest_flight_text st =
     (case rev (filter (\<lambda>m. name m = Some ''amadeus_flight_search'') (messages st)) of
        [] \<Rightarrow> None
      | m # _ \<Rightarrow> Some (content m))"

text \<open>A result message of the flight search, and three states with one in the log: an
  offer in the format of the flight adapter, an error text that happens to hold a
  price, and the adapter's text for an empty answer.\<close>

definition flight_result :: "string \<Rightarrow> message" where
  "flight_result txt =
     \<lparr> role = ToolMessage, name = Some ''amadeus_flight_search'', content = txt,
       tool_calls = [] \<rparr>"

definition flight_text :: string where
  "flight_text = ''Cheapest flight price found: 1234.50 EUR | Ticket Provider/Validating Airline: Emirates (EK) | Operating Airline(s): Emirates (EK) | Note: This is a test environment result and prices are not guaranteed.''"

definition offer_state :: State where
  "offer_state = empty_update\<lparr> budget := Some ''2000 USD'', messages := [flight_result flight_text] \<rparr>"

definition api_error_text :: string where
  "api_error_text = ''Amadeus API Error: Could not complete search. Check your IATA codes and dates. Details: 400 - fare 512.30 EUR expired''"

definition api_error_state :: State where
  "api_error_state =
     empty_update\<lparr> budget := Some ''2000 USD'', messages := [flight_result api_error_text] \<rparr>"

definition no_offers_state :: State where
  "no_offers_state =
     empty_update\<lparr> budget := Some ''2000 USD'',
                   messages := [flight_result ''No flight offers found for this itinerary.''] \<rparr>"

text \<open>The tool a request to the model names as the one to call: the variable
  \<^verbatim>\<open>tool_to_call\<close> of the third prompt, the directions tool in the first, none in the
  final summary.\<close>

definition requested_tool :: "llm_call \<Rightarrow> string option" where
  "requested_tool c =
     (case prompt c of
        DirectionsPrompt \<Rightarrow> Some ''get_openrouteservice_directions''
      | FinalSummaryPrompt \<Rightarrow> None
      | NextToolPrompt instructions tool_to_call \<Rightarrow> tool_to_call)"











section \<open>Properties of the decision node and of the routing\<close>

lemma get_flag_eq: "get_flag v \<longleftrightarrow> v = Some True"
  by (cases v) (auto simp: get_flag_def)

lemma has_result_eq: "has_result t ms \<longleftrightarrow> (\<exists>m \<in> set ms. name m = Some t)"
  by (simp add: has_result_def list_ex_iff)

lemma recorded_done_eq:
  "recorded_done flag tool ms \<longleftrightarrow> get_flag flag \<or> has_result tool ms"
  by (simp add: recorded_done_def get_flag_eq has_result_eq)

subsection \<open>The two halves of \<open>tools_condition\<close>\<close>

lemma tools_condition_done:
  assumes "messages st \<noteq> []" "required_flags_done st"
  shows "tools_condition st =
           (if content (last (messages st)) \<noteq> [] \<and> tool_calls (last (messages st)) = []
            then Inr (END, st) else Inr (To_chatbot, set_last_tool_calls [] st))"
proof -
  from assms(2) have "get_flag (flight_searched st)" "get_flag (hotel_searched st)"
    "get_flag (activities_searched st)"
    "\<not> get_flag (needs_directions st) \<or> get_flag (directions_searched st)"
    by (auto simp: required_flags_done_def get_flag_eq)
  then show ?thesis using assms(1)
    unfolding tools_condition_def Let_def by auto
qed

lemma tools_condition_not_done:
  assumes "messages st \<noteq> []" "\<not> required_flags_done st"
  shows "tools_condition st =
           (if tool_calls (last (messages st)) \<noteq> [] then
              (if length (tool_calls (last (messages st))) > 1 then
                 Inr (To_tools, set_last_tool_calls [hd (tool_calls (last (messages st)))] st)
               else Inr (To_tools, st))
            else Inr (To_chatbot, st))"
proof -
  from assms(2) have h:
    "((get_flag (flight_searched st) \<and> get_flag (hotel_searched st)
          \<and> get_flag (activities_searched st))
        \<and> (\<not> get_flag (needs_directions st)
           \<or> get_flag (needs_directions st) \<and> get_flag (directions_searched st))) = False"
    by (auto simp: required_flags_done_def get_flag_eq)
  show ?thesis using assms(1)
    unfolding tools_condition_def Let_def h by simp
qed

lemma last_set_last_tool_calls:
  "tool_calls (last (messages (set_last_tool_calls cs st))) = cs"
  by (simp add: set_last_tool_calls_def)

text \<open>
  Claim C4. On a non-empty log, \<open>tools_condition\<close> ends the turn exactly when all required
  flags are true (the directions flag only if directions are needed), the latest message
  has non-empty content and it requests no tool; the state is then left as it is. When
  all required flags are true and the latest message has no content or requests a tool,
  its tool-call list is cleared and the next node is the decision node: neither the tool
  node nor the end of the turn.
\<close>

theorem tools_condition_terminal:
  assumes "messages st \<noteq> []"
  shows "((\<exists>st'. tools_condition st = Inr (END, st')) \<longleftrightarrow>
            required_flags_done st \<and> content (last (messages st)) \<noteq> []
              \<and> tool_calls (last (messages st)) = [])
       \<and> (required_flags_done st \<and> content (last (messages st)) \<noteq> []
              \<and> tool_calls (last (messages st)) = [] \<longrightarrow>
            tools_condition st = Inr (END, st))
       \<and> (required_flags_done st \<and>
            (content (last (messages st)) = [] \<or> tool_calls (last (messages st)) \<noteq> []) \<longrightarrow>
            tools_condition st = Inr (To_chatbot, set_last_tool_calls [] st)
            \<and> tool_calls (last (messages (set_last_tool_calls [] st))) = [])"
proof (cases "required_flags_done st")
  case True
  show ?thesis
    using True by (auto simp: tools_condition_done [OF assms True] last_set_last_tool_calls)
next
  case False
  show ?thesis
    using False by (simp add: tools_condition_not_done [OF assms False])
qed

theorem tools_condition_terminal_witness:
  "tools_condition empty_answer_state
     = Inr (To_chatbot, set_last_tool_calls [] empty_answer_state)
   \<and> tools_condition final_answer_state = Inr (END, final_answer_state)"
proof -
  have d: "required_flags_done empty_answer_state" "required_flags_done final_answer_state"
    by (simp_all add: required_flags_done_def final_answer_state_def empty_answer_state_def
          searches_done_state_def empty_update_def)
  have m: "messages empty_answer_state \<noteq> []" "messages final_answer_state \<noteq> []"
    by (simp_all add: final_answer_state_def empty_answer_state_def)
  have t: "content (last (messages empty_answer_state)) = []"
    "tool_calls (last (messages final_answer_state)) = []"
    "content (last (messages final_answer_state)) \<noteq> []"
    by (simp_all add: final_answer_state_def empty_answer_state_def plain_message_def)
  from tools_condition_terminal [OF m(1)] tools_condition_terminal [OF m(2)] d t
  show ?thesis by blast
qed

subsection \<open>The branches of \<open>chatbot\<close>\<close>

lemma chatbot_all_done:
  assumes "get_flag (flight_searched st) \<or> has_result ''amadeus_flight_search'' (messages st)"
    and "get_flag (hotel_searched st) \<or> has_result ''quick_hotel_search'' (messages st)"
    and "get_flag (activities_searched st) \<or> has_result ''google_search_activities'' (messages st)"
  shows "chatbot st =
          (if get_flag (needs_directions st)
              \<and> \<not> (get_flag (directions_searched st)
                    \<or> has_result ''get_openrouteservice_directions'' (messages st))
           then \<lparr> prompt = DirectionsPrompt, bound_tools = tools, llm_messages = messages st \<rparr>
           else \<lparr> prompt = FinalSummaryPrompt, bound_tools = [], llm_messages = messages st \<rparr>)"
  using assms unfolding chatbot_def Let_def by simp

lemma chatbot_not_all_done:
  assumes "\<not> ((get_flag (flight_searched st) \<or> has_result ''amadeus_flight_search'' (messages st))
            \<and> (get_flag (hotel_searched st) \<or> has_result ''quick_hotel_search'' (messages st))
            \<and> (get_flag (activities_searched st)
                 \<or> has_result ''google_search_activities'' (messages st)))"
  shows "chatbot st =
           (case next_tool st
                   (get_flag (flight_searched st)
                      \<or> has_result ''amadeus_flight_search'' (messages st))
                   (get_flag (hotel_searched st)
                      \<or> has_result ''quick_hotel_search'' (messages st))
                   (get_flag (activities_searched st)
                      \<or> has_result ''google_search_activities'' (messages st)) of
              (instructions, tool_to_call) \<Rightarrow>
                \<lparr> prompt = NextToolPrompt
                    (instructions @
                     [''Your response MUST be a call to the tool '' @ [CHR 0x27] @
                        (case tool_to_call of None \<Rightarrow> ''None'' | Some t \<Rightarrow> t) @
                        [CHR 0x27] @ '' if specified, otherwise no tool call.'',
                      ''Provide ONLY the tool call, no other text.''])
                    tool_to_call,
                  bound_tools = tools,
                  llm_messages = (if tool_to_call = Some ''Travel''
                                  then last_human (messages st) else []) \<rparr>)"
proof -
  from assms have h:
    "((get_flag (flight_searched st) \<or> has_result ''amadeus_flight_search'' (messages st))
      \<and> (get_flag (hotel_searched st) \<or> has_result ''quick_hotel_search'' (messages st))
      \<and> (get_flag (activities_searched st)
           \<or> has_result ''google_search_activities'' (messages st))) = False"
    by simp
  show ?thesis
    unfolding chatbot_def Let_def h by simp
qed

lemma next_tool_no_destination:
  assumes "\<not> get_truthy (destination st)"
  shows "next_tool st f h a =
     ([''Instruction: User details are missing. Call ONLY the 'Travel' tool to get them.''],
      Some ''Travel'')"
  using assms by (simp add: next_tool_def)

text \<open>
  Claim C7. When the flight, hotel and activities searches are each recorded as done, by
  flag or by a result message in the log, and directions are not needed or are recorded
  as done, \<open>chatbot\<close> builds the final-summary prompt and invokes the model with no tool
  bound.
\<close>

theorem chatbot_final_without_tools:
  assumes "recorded_done (flight_searched st) ''amadeus_flight_search'' (messages st)"
    and "recorded_done (hotel_searched st) ''quick_hotel_search'' (messages st)"
    and "recorded_done (activities_searched st) ''google_search_activities'' (messages st)"
    and "needs_directions st \<noteq> Some True
         \<or> recorded_done (directions_searched st) ''get_openrouteservice_directions'' (messages st)"
  shows "chatbot st = \<lparr> prompt = FinalSummaryPrompt, bound_tools = [], llm_messages = messages st \<rparr>"
proof -
  from assms(4) have
    "\<not> (get_flag (needs_directions st)
        \<and> \<not> (get_flag (directions_searched st)
              \<or> has_result ''get_openrouteservice_directions'' (messages st)))"
    by (auto simp: recorded_done_eq get_flag_eq)
  then show ?thesis
    using assms(1-3) by (simp add: chatbot_all_done recorded_done_eq)
qed

theorem chatbot_final_without_tools_witness:
  "chatbot searches_done_state =
     \<lparr> prompt = FinalSummaryPrompt, bound_tools = [],
       llm_messages = messages searches_done_state \<rparr>"
proof -
  have "recorded_done (flight_searched searches_done_state) ''amadeus_flight_search''
          (messages searches_done_state)"
    "recorded_done (hotel_searched searches_done_state) ''quick_hotel_search''
          (messages searches_done_state)"
    "recorded_done (activities_searched searches_done_state) ''google_search_activities''
          (messages searches_done_state)"
    "needs_directions searches_done_state \<noteq> Some True"
    by (simp_all add: recorded_done_def searches_done_state_def empty_update_def)
  then show ?thesis
    using chatbot_final_without_tools [of searches_done_state] by blast
qed

text \<open>
  Claim C3, as the specification states it, fails: with no destination but the three
  searches flagged done, \<open>chatbot\<close> does not ask for the \<open>Travel\<close> tool; it asks for the
  final summary, with no tool bound.
\<close>

theorem chatbot_no_destination_counterexample:
  "destination searches_done_state = None
   \<and> chatbot searches_done_state =
       \<lparr> prompt = FinalSummaryPrompt, bound_tools = [],
         llm_messages = [plain_message HumanMessage ''plan a trip''] \<rparr>"
proof -
  have "get_flag (flight_searched searches_done_state)"
    "get_flag (hotel_searched searches_done_state)"
    "get_flag (activities_searched searches_done_state)"
    "\<not> get_flag (needs_directions searches_done_state)"
    by (simp_all add: searches_done_state_def empty_update_def get_flag_def)
  then have "chatbot searches_done_state =
     \<lparr> prompt = FinalSummaryPrompt, bound_tools = [],
         llm_messages = messages searches_done_state \<rparr>"
    by (simp add: chatbot_all_done)
  then show ?thesis
    by (simp add: searches_done_state_def empty_update_def)
qed

text \<open>
  Claim C3, amended. When the destination is missing or empty and the flight, hotel and
  activities searches are not all three recorded as done, \<open>chatbot\<close> names the \<open>Travel\<close>
  tool and only that tool, whatever the directions flags and the other two search flags
  are, and passes the model only the most recent user message.
\<close>

theorem chatbot_requests_Travel:
  assumes "destination st = None \<or> destination st = Some []"
    and "\<not> (recorded_done (flight_searched st) ''amadeus_flight_search'' (messages st)
           \<and> recorded_done (hotel_searched st) ''quick_hotel_search'' (messages st)
           \<and> recorded_done (activities_searched st) ''google_search_activities'' (messages st))"
  shows "chatbot st =
           \<lparr> prompt = NextToolPrompt
               [''Instruction: User details are missing. Call ONLY the 'Travel' tool to get them.'',
                ''Your response MUST be a call to the tool 'Travel' if specified, otherwise no tool call.'',
                ''Provide ONLY the tool call, no other text.'']
               (Some ''Travel''),
             bound_tools = tools, llm_messages = last_human (messages st) \<rparr>"
proof -
  from assms(1) have "\<not> get_truthy (destination st)"
    by (auto simp: get_truthy_def)
  then show ?thesis
    using assms(2) by (simp add: chatbot_not_all_done recorded_done_eq next_tool_no_destination)
qed

theorem chatbot_requests_Travel_witness:
  "chatbot new_thread_state =
           \<lparr> prompt = NextToolPrompt
               [''Instruction: User details are missing. Call ONLY the 'Travel' tool to get them.'',
                ''Your response MUST be a call to the tool 'Travel' if specified, otherwise no tool call.'',
                ''Provide ONLY the tool call, no other text.'']
               (Some ''Travel''),
             bound_tools = tools,
             llm_messages = [plain_message HumanMessage ''5 days Morocco, $2000, history and food''] \<rparr>"
proof -
  have "destination new_thread_state = None"
    "\<not> recorded_done (flight_searched new_thread_state) ''amadeus_flight_search''
         (messages new_thread_state)"
    by (simp_all add: new_thread_state_def empty_update_def recorded_done_def plain_message_def)
  moreover have "last_human (messages new_thread_state)
      = [plain_message HumanMessage ''5 days Morocco, $2000, history and food'']"
    by (simp add: new_thread_state_def last_human_def plain_message_def)
  ultimately show ?thesis
    using chatbot_requests_Travel [of new_thread_state] by simp
qed

section \<open>Properties of the floating-point rounding\<close>

lemma pow2_powi: "pow2 e = 2 powi e"
  by (simp add: pow2_def power_int_def inverse_eq_divide power_one_over)

lemma pow2_pos: "0 < pow2 e"
  by (simp add: pow2_powi)

lemma pow2_add: "pow2 (a + b) = pow2 a * pow2 b"
  by (simp add: pow2_powi power_int_add)

lemma pow2_strict_mono: "a < b \<Longrightarrow> pow2 a < pow2 b"
  by (simp add: pow2_powi power_int_strict_increasing)

lemma pow2_mono: "a \<le> b \<Longrightarrow> pow2 a \<le> pow2 b"
  by (simp add: pow2_powi power_int_increasing)

lemma pow2_less_iff: "pow2 a < pow2 b \<longleftrightarrow> a < b"
  using pow2_strict_mono [of a b] pow2_mono [of b a] by (auto simp: not_le [symmetric])

lemma pow2_le_iff: "pow2 a \<le> pow2 b \<longleftrightarrow> a \<le> b"
  using pow2_strict_mono [of b a] pow2_mono [of a b] by (auto simp: not_less [symmetric])

lemma pow2_nat: "0 \<le> e \<Longrightarrow> pow2 e = of_int (2 ^ nat e)"
  by (simp add: pow2_def)

lemma bitlen_pos: "0 < n \<Longrightarrow> 1 \<le> bitlen n"
proof (induction n rule: bitlen.induct)
  case (1 n)
  show ?case
  proof (cases "0 < n div 2")
    case True
    with 1 have "1 \<le> bitlen (n div 2)" by simp
    with 1(2) show ?thesis by (simp add: bitlen.simps [of n])
  next
    case False
    with 1(2) show ?thesis by (simp add: bitlen.simps [of n] bitlen.simps [of 0])
  qed
qed

lemma bitlen_bounds:
  "0 < n \<Longrightarrow> 2 ^ nat (bitlen n - 1) \<le> n \<and> n < 2 ^ nat (bitlen n)"
proof (induction n rule: bitlen.induct)
  case (1 n)
  show ?case
  proof (cases "0 < n div 2")
    case True
    with 1 have ih: "2 ^ nat (bitlen (n div 2) - 1) \<le> n div 2" "n div 2 < 2 ^ nat (bitlen (n div 2))"
      by auto
    from True have p: "1 \<le> bitlen (n div 2)" by (rule bitlen_pos)
    have b: "bitlen n = 1 + bitlen (n div 2)"
      using 1(2) by (simp add: bitlen.simps [of n])
    have e1: "nat (bitlen n - 1) = Suc (nat (bitlen (n div 2) - 1))"
      using p b by simp
    have e2: "nat (bitlen n) = Suc (nat (bitlen (n div 2)))"
      using p b by simp
    from ih show ?thesis unfolding e1 e2 by simp linarith
  next
    case False
    with 1(2) have "n = 1" by linarith
    then show ?thesis by (simp add: bitlen.simps [of 1] bitlen.simps [of 0])
  qed
qed

lemma bitlen_pow2_bounds:
  assumes "0 < n"
  shows "pow2 (bitlen n - 1) \<le> of_int n" "of_int n < pow2 (bitlen n)"
proof -
  from bitlen_pos [OF assms] have p: "0 \<le> bitlen n - 1" "0 \<le> bitlen n" by simp_all
  from bitlen_bounds [OF assms] have "(of_int (2 ^ nat (bitlen n - 1)) :: rat) \<le> of_int n"
    "(of_int n :: rat) < of_int (2 ^ nat (bitlen n))"
    by (simp_all only: of_int_le_iff of_int_less_iff)
  then show "pow2 (bitlen n - 1) \<le> of_int n" "of_int n < pow2 (bitlen n)"
    using p by (simp_all add: pow2_nat)
qed

lemma floor_log2_bounds:
  assumes "0 < x"
  shows "pow2 (floor_log2 x) \<le> x" "x < pow2 (floor_log2 x + 1)"
proof -
  obtain p q where pq: "quotient_of x = (p, q)" by (cases "quotient_of x")
  then have q: "0 < q" by (rule quotient_of_denom_pos)
  from pq have x: "x = of_int p / of_int q" by (rule quotient_of_div)
  with assms q have p: "0 < p" by (simp add: zero_less_divide_iff)
  define d where "d = bitlen p - bitlen q"
  have fl: "floor_log2 x = (if pow2 d \<le> x then d else d - 1)"
    by (simp add: floor_log2_def pq d_def Let_def)
  note bp = bitlen_pow2_bounds [OF p] and bq = bitlen_pow2_bounds [OF q]
  have qpos: "(0::rat) < of_int q" using q by simp
  have lo: "pow2 (d - 1) \<le> x"
  proof -
    have "pow2 (d - 1) * of_int q \<le> pow2 (d - 1) * pow2 (bitlen q)"
      using bq(2) pow2_pos [of "d - 1"] by simp
    also have "\<dots> = pow2 (bitlen p - 1)"
      by (simp add: pow2_add [symmetric] d_def)
    also have "\<dots> \<le> of_int p" by (rule bp(1))
    finally show ?thesis using qpos by (simp add: x pos_le_divide_eq)
  qed
  have hi: "x < pow2 (d + 1)"
  proof -
    have "of_int p < pow2 (bitlen p)" by (rule bp(2))
    also have "\<dots> = pow2 (d + 1) * pow2 (bitlen q - 1)"
      by (simp add: pow2_add [symmetric] d_def)
    also have "\<dots> \<le> pow2 (d + 1) * of_int q"
      using bq(1) pow2_pos [of "d + 1"] by simp
    finally show ?thesis using qpos by (simp add: x pos_divide_less_eq)
  qed
  show "pow2 (floor_log2 x) \<le> x" using lo by (simp add: fl)
  show "x < pow2 (floor_log2 x + 1)" using hi by (auto simp: fl)
qed

lemma round_half_even_of_int: "round_half_even (of_int k) = k"
  by (simp add: round_half_even_def)

lemma round_half_even_nonneg: "0 \<le> x \<Longrightarrow> 0 \<le> round_half_even x"
  by (auto simp: round_half_even_def Let_def)

lemma round_half_even_le: "x < of_int n \<Longrightarrow> round_half_even x \<le> n"
proof -
  assume "x < of_int n"
  then have "\<lfloor>x\<rfloor> < n" by (simp add: floor_less_iff)
  then show ?thesis by (auto simp: round_half_even_def Let_def)
qed

lemma round_double_pos_repr:
  assumes m: "0 < m" "m < 2 ^ 53" and e: "- 1074 \<le> e"
    and lt: "of_int m * pow2 e < pow2 1024"
  shows "round_double (of_int m * pow2 e) = Finite (of_int m * pow2 e)"
proof -
  define a :: rat where "a = of_int m * pow2 e"
  have apos: "0 < a" using m(1) pow2_pos [of e] by (simp add: a_def)
  define k where "k = floor_log2 a"
  define e' where "e' = max (k - 52) (- 1074)"
  have "pow2 k \<le> a" unfolding k_def by (rule floor_log2_bounds(1) [OF apos])
  also have "a < pow2 53 * pow2 e"
  proof -
    have "(of_int m :: rat) < of_int (2 ^ 53)" using m(2) by (simp only: of_int_less_iff)
    then have "(of_int m :: rat) < pow2 53" by (simp add: pow2_def)
    then show ?thesis using pow2_pos [of e] by (simp add: a_def)
  qed
  also have "\<dots> = pow2 (53 + e)" by (simp add: pow2_add)
  finally have "k < 53 + e" by (simp add: pow2_less_iff)
  then have le: "e' \<le> e" using e by (simp add: e'_def)
  have "a / pow2 e' = of_int m * pow2 (e - e')"
  proof -
    have "pow2 e = pow2 (e - e') * pow2 e'" by (simp add: pow2_add [symmetric])
    then show ?thesis using pow2_pos [of e'] by (simp add: a_def)
  qed
  also have "\<dots> = of_int (m * 2 ^ nat (e - e'))"
    using le by (simp add: pow2_nat)
  finally have q: "a / pow2 e' = of_int (m * 2 ^ nat (e - e'))" .
  have r: "of_int (round_half_even (a / pow2 e')) * pow2 e' = a"
    unfolding q round_half_even_of_int
    using q pow2_pos [of e'] by (simp add: field_simps)
  have "round_double a = Finite a"
    using apos lt r
    by (simp add: round_double_def Let_def k_def [symmetric] e'_def [symmetric] a_def [symmetric])
  then show ?thesis by (simp add: a_def)
qed

lemma round_double_neg: "round_double (- x) = (case round_double x of
     Finite r \<Rightarrow> Finite (- r) | PosInf \<Rightarrow> NegInf | NegInf \<Rightarrow> PosInf | NaN \<Rightarrow> NaN)"
  by (cases "x = 0"; cases "0 < x") (auto simp: round_double_def Let_def)

lemma round_double_representable:
  assumes "representable r"
  shows "round_double r = Finite r"
proof -
  from assms obtain m e where r: "r = of_int m * pow2 e" and m: "\<bar>m\<bar> < 2 ^ 53"
    and e: "- 1074 \<le> e" and lt: "\<bar>r\<bar> < pow2 1024"
    by (auto simp: representable_def)
  consider "m = 0" | "0 < m" | "m < 0" by linarith
  then show ?thesis
  proof cases
    case 1
    then show ?thesis by (simp add: r round_double_def)
  next
    case 2
    with m have "m < 2 ^ 53" by simp
    moreover from lt 2 have "of_int m * pow2 e < pow2 1024"
      using pow2_pos [of e] by (simp add: r abs_mult)
    ultimately show ?thesis unfolding r using 2 e by (intro round_double_pos_repr)
  next
    case 3
    define n where "n = - m"
    have n: "0 < n" "n < 2 ^ 53" using 3 m by (simp_all add: n_def)
    have "of_int n * pow2 e < pow2 1024"
      using lt 3 pow2_pos [of e] by (simp add: r abs_mult n_def)
    with n e have "round_double (of_int n * pow2 e) = Finite (of_int n * pow2 e)"
      by (intro round_double_pos_repr)
    moreover have "r = - (of_int n * pow2 e)" by (simp add: r n_def)
    ultimately show ?thesis by (simp add: round_double_neg)
  qed
qed

lemma round_double_pos_finite:
  assumes x: "0 < x" and f: "round_double x = Finite r"
  shows "representable r"
proof -
  define k where "k = floor_log2 x"
  define e where "e = max (k - 52) (- 1074)"
  define m where "m = round_half_even (x / pow2 e)"
  from x have ax: "\<bar>x\<bar> = x" by simp
  from f x have r: "r = of_int m * pow2 e" and lt: "of_int m * pow2 e < pow2 1024"
    by (auto simp: round_double_def Let_def ax k_def [symmetric] e_def [symmetric]
          m_def [symmetric] split: if_splits)
  have e: "- 1074 \<le> e" "k - 52 \<le> e" by (simp_all add: e_def)
  have m0: "0 \<le> m"
    unfolding m_def using x pow2_pos [of e] by (intro round_half_even_nonneg) simp
  have "x < pow2 (k + 1)" unfolding k_def by (rule floor_log2_bounds(2) [OF x])
  also have "\<dots> \<le> pow2 (53 + e)" using e(2) by (simp add: pow2_le_iff)
  also have "\<dots> = pow2 53 * pow2 e" by (simp add: pow2_add)
  finally have "x / pow2 e < pow2 53" using pow2_pos [of e] by (simp add: pos_divide_less_eq)
  then have "x / pow2 e < of_int (2 ^ 53)" by (simp add: pow2_def)
  then have m53: "m \<le> 2 ^ 53" unfolding m_def by (rule round_half_even_le)
  have abs: "\<bar>r\<bar> < pow2 1024" using lt m0 pow2_pos [of e] by (simp add: r abs_mult)
  show ?thesis
  proof (cases "m = 2 ^ 53")
    case True
    have "pow2 (e + 1) = pow2 e * pow2 1" by (rule pow2_add)
    also have "pow2 1 = 2" by (simp add: pow2_def)
    finally have "r = of_int (2 ^ 52) * pow2 (e + 1)"
      by (simp add: r True)
    moreover have "\<bar>2 ^ 52 :: int\<bar> < 2 ^ 53" by simp
    moreover have "- 1074 \<le> e + 1" using e(1) by simp
    ultimately show ?thesis using abs unfolding representable_def by blast
  next
    case False
    with m53 m0 have "\<bar>m\<bar> < 2 ^ 53" by simp
    with r e(1) abs show ?thesis unfolding representable_def by blast
  qed
qed

lemma representable_minus: "representable r \<Longrightarrow> representable (- r)"
proof -
  assume "representable r"
  then obtain m e where "r = of_int m * pow2 e" "\<bar>m\<bar> < 2 ^ 53" "- 1074 \<le> e" "\<bar>r\<bar> < pow2 1024"
    by (auto simp: representable_def)
  then have "- r = of_int (- m) * pow2 e" "\<bar>- m\<bar> < 2 ^ 53" "- 1074 \<le> e" "\<bar>- r\<bar> < pow2 1024"
    by simp_all
  then show ?thesis unfolding representable_def by blast
qed

lemma representable_0: "representable 0"
proof -
  have "(0::rat) = of_int 0 * pow2 0" "\<bar>0::int\<bar> < 2 ^ 53" "- 1074 \<le> (0::int)"
    "\<bar>0::rat\<bar> < pow2 1024"
    by (simp_all add: pow2_pos)
  then show ?thesis unfolding representable_def by blast
qed

lemma round_double_finite:
  assumes "round_double x = Finite r"
  shows "representable r"
proof -
  consider "x = 0" | "0 < x" | "x < 0" by linarith
  then show ?thesis
  proof cases
    case 1
    with assms show ?thesis by (simp add: round_double_def representable_0)
  next
    case 2
    then show ?thesis using assms by (rule round_double_pos_finite)
  next
    case 3
    from assms have "round_double (- (- x)) = Finite r" by simp
    then have "round_double (- x) = Finite (- r)"
      unfolding round_double_neg [of "- x"] by (auto split: pyfloat.splits)
    with 3 have "representable (- r)" by (intro round_double_pos_finite [of "- x"]) simp_all
    then have "representable (- (- r))" by (rule representable_minus)
    then show ?thesis by simp
  qed
qed

lemma round_double_idem:
  "round_double x = Finite r \<Longrightarrow> round_double r = Finite r"
  by (intro round_double_representable round_double_finite)

lemma round_double_not_NaN: "round_double x \<noteq> NaN"
  by (simp add: round_double_def Let_def)

lemma float_sub_zero:
  assumes "\<And>r. y = Finite r \<Longrightarrow> representable r" and "y \<noteq> NaN"
  shows "float_sub y (Finite 0) = y"
  using assms by (cases y) (simp_all add: round_double_representable)

subsection \<open>Evaluating the rounding\<close>

lemma floor_log2_unique:
  assumes "pow2 k \<le> x" "x < pow2 (k + 1)"
  shows "floor_log2 x = k"
proof -
  from assms(1) pow2_pos [of k] have x: "0 < x" by simp
  note b = floor_log2_bounds [OF x]
  from b(1) assms(2) have "pow2 (floor_log2 x) < pow2 (k + 1)" by simp
  then have "floor_log2 x < k + 1" by (simp add: pow2_less_iff)
  moreover from assms(1) b(2) have "pow2 k < pow2 (floor_log2 x + 1)" by simp
  then have "k < floor_log2 x + 1" by (simp add: pow2_less_iff)
  ultimately show ?thesis by simp
qed

lemma round_double_normal:
  assumes "pow2 k \<le> x" "x < pow2 (k + 1)" and "- 1022 \<le> k"
    and "round_half_even (x / pow2 (k - 52)) = m"
    and "of_int m * pow2 (k - 52) < pow2 1024"
  shows "round_double x = Finite (of_int m * pow2 (k - 52))"
proof -
  from assms(1) pow2_pos [of k] have x: "0 < x" by simp
  then have ax: "\<bar>x\<bar> = x" by simp
  have e: "max (floor_log2 x - 52) (- 1074) = k - 52"
    using assms(3) by (simp add: floor_log2_unique [OF assms(1,2)])
  show ?thesis
    unfolding round_double_def Let_def ax e assms(4) using x assms(5) by simp
qed

lemma round_double_of_int:
  assumes "\<bar>n\<bar> < 2 ^ 53"
  shows "round_double (of_int n) = Finite (of_int n)"
proof -
  have "(of_int n :: rat) = of_int n * pow2 0" by (simp add: pow2_def)
  moreover have "\<bar>of_int n :: rat\<bar> < pow2 1024"
  proof -
    have "\<bar>of_int n :: rat\<bar> = of_int \<bar>n\<bar>" by simp
    also have "\<dots> < of_int (2 ^ 53)" using assms by (simp only: of_int_less_iff)
    also have "\<dots> = pow2 53" by (simp add: pow2_def)
    also have "\<dots> < pow2 1024" by (simp add: pow2_less_iff)
    finally show ?thesis .
  qed
  ultimately have "representable (of_int n)"
    unfolding representable_def using assms by (metis neg_le_0_iff_le zero_le_numeral order_trans)
  then show ?thesis by (rule round_double_representable)
qed

lemma floor_rat_numeral:
  "\<lfloor>numeral a / numeral b :: rat\<rfloor> = numeral a div numeral b"
  using floor_divide_of_int_eq [of "numeral a" "numeral b", where ?'a = rat] by simp

lemma round_half_even_numeral:
  "round_half_even (numeral a / numeral b) =
     (let f = (numeral a div numeral b :: int); r = (numeral a / numeral b :: rat) - of_int f
      in if r < 1 / 2 then f else if 1 / 2 < r then f + 1 else if even f then f else f + 1)"
  unfolding round_half_even_def floor_rat_numeral by (rule refl)

section \<open>Properties of the budget stage\<close>

subsection \<open>The parsing never raises\<close>

lemma dot_not_digit: "\<not> is_digit CHR ''.''"
  by (simp add: is_digit_def)

lemma float_of_str_digits:
  assumes "ds \<noteq> []" "list_all is_digit ds"
  shows "float_of_str ds = Inr (round_double (of_int (dec_value ds)))"
proof -
  have t: "takeWhile is_digit ds = ds" and d: "dropWhile is_digit ds = []"
    using assms(2) by (simp_all add: list_all_iff)
  show ?thesis unfolding float_of_str_def Let_def t d using assms(1) by simp
qed

lemma float_of_str_dotted:
  assumes "d1 \<noteq> []" "list_all is_digit d1" "list_all is_digit d2"
  shows "float_of_str (d1 @ [CHR ''.''] @ d2)
           = Inr (round_double (of_int (dec_value (d1 @ d2)) / 10 ^ length d2))"
proof -
  from assms(2) have "takeWhile is_digit (d1 @ [CHR ''.''] @ d2) = d1"
    "dropWhile is_digit (d1 @ [CHR ''.''] @ d2) = CHR ''.'' # d2"
    by (simp_all add: list_all_iff takeWhile_append2 dropWhile_append2 dot_not_digit)
  then show ?thesis using assms(1,3) unfolding float_of_str_def Let_def by simp
qed

lemma list_all_takeWhile: "list_all P (takeWhile P xs)"
  by (induction xs) simp_all

lemma match_price_number:
  assumes "match_price s = Some (number, cur)"
  shows "\<exists>q. float_of_str number = Inr (round_double q)"
proof -
  define d1 where "d1 = takeWhile is_digit s"
  define r1 where "r1 = dropWhile is_digit s"
  from assms have d1: "d1 \<noteq> []"
    by (auto simp: match_price_def Let_def d1_def split: if_splits)
  have a1: "list_all is_digit d1" unfolding d1_def by (rule list_all_takeWhile)
  show ?thesis
  proof (cases "\<exists>t. r1 = CHR ''.'' # t")
    case True
    then obtain t where t: "r1 = CHR ''.'' # t" by blast
    with assms d1 have "number = d1 @ [CHR ''.''] @ takeWhile is_digit t"
      by (auto simp: match_price_def Let_def d1_def [symmetric] r1_def [symmetric]
            split: if_splits)
    with d1 a1 show ?thesis
      using float_of_str_dotted [of d1 "takeWhile is_digit t"] list_all_takeWhile [of is_digit t]
      by blast
  next
    case False
    with assms d1 have "number = d1"
      by (auto simp: match_price_def Let_def d1_def [symmetric] r1_def [symmetric]
            split: if_splits list.splits)
    with d1 a1 show ?thesis using float_of_str_digits [of d1] by blast
  qed
qed

lemma search_price_number:
  "search_price s = Some (number, cur) \<Longrightarrow> \<exists>q. float_of_str number = Inr (round_double q)"
proof (induction s)
  case Nil
  then show ?case by simp
next
  case (Cons c cs)
  show ?case
  proof (cases "match_price (c # cs)")
    case None
    with Cons show ?thesis by simp
  next
    case (Some g)
    with Cons.prems have "match_price (c # cs) = Some (number, cur)" by simp
    then show ?thesis by (rule match_price_number)
  qed
qed

lemma match_price_currency:
  assumes "match_price s = Some (number, cur)"
  shows "length cur = 3 \<and> list_all is_upper cur"
  using assms by (auto simp: match_price_def Let_def split: if_splits prod.splits)

lemma parse_price_total: "\<exists>q cur. parse_price text = Inr (round_double q, cur)"
proof (cases "search_price text")
  case None
  have "round_double 0 = Finite 0" by (simp add: round_double_def)
  with None show ?thesis unfolding parse_price_def by (metis option.simps(4))
next
  case (Some g)
  obtain number cur where g: "g = (number, cur)" by (cases g)
  from Some g search_price_number obtain q where "float_of_str number = Inr (round_double q)"
    by blast
  with Some g show ?thesis by (simp add: parse_price_def) blast
qed

lemma search_digits_digits:
  assumes "search_digits s = Some ds"
  shows "ds \<noteq> [] \<and> list_all is_digit ds"
proof -
  define r where "r = dropWhile (\<lambda>c. \<not> is_digit c) s"
  from assms have r: "r \<noteq> []" and ds: "ds = takeWhile is_digit r"
    by (auto simp: search_digits_def Let_def r_def split: if_splits)
  from r have "is_digit (hd r)"
    unfolding r_def using hd_dropWhile [of "\<lambda>c. \<not> is_digit c" s] by simp
  with r have "ds \<noteq> []" unfolding ds by (cases r) simp_all
  then show ?thesis by (simp add: ds list_all_takeWhile)
qed

lemma user_budget_rounded: "\<exists>q. user_budget b = round_double q"
proof -
  define budget_str where "budget_str = (case b of None \<Rightarrow> ''0 USD'' | Some s \<Rightarrow> s)"
  have z: "Finite 0 = round_double 0" by (simp add: round_double_def)
  show ?thesis
  proof (cases "search_digits budget_str")
    case None
    then have "user_budget b = round_double 0"
      by (simp add: user_budget_def budget_str_def [symmetric] z)
    then show ?thesis by blast
  next
    case (Some ds)
    then have "float_of_str ds = Inr (round_double (of_int (dec_value ds)))"
      using search_digits_digits float_of_str_digits by blast
    with Some have "user_budget b = round_double (of_int (dec_value ds))"
      by (simp add: user_budget_def budget_str_def [symmetric])
    then show ?thesis by blast
  qed
qed

lemma float_sub_rounded_zero: "float_sub (round_double q) (Finite 0) = round_double q"
  by (intro float_sub_zero round_double_finite [of q]) (simp_all add: round_double_not_NaN)

lemma EUR_TO_USD_RATE_value:
  "EUR_TO_USD_RATE = Finite (4818851601286431 / 4503599627370496)"
proof -
  have "round_double (107 / 100) = Finite (of_int 4818851601286431 * pow2 (0 - 52))"
    by (rule round_double_normal) (simp_all add: pow2_def round_half_even_numeral Let_def)
  then show ?thesis by (simp add: EUR_TO_USD_RATE_def pow2_def)
qed

lemma price_usd_zero: "price_usd (Finite 0) ''EUR'' = Finite 0"
  by (simp add: price_usd_def EUR_TO_USD_RATE_value round_double_def)

subsection \<open>The return paths of \<open>calculate_budget_status\<close>\<close>

lemma latest_flight_text_None:
  "latest_flight_text st = None \<longleftrightarrow> flight_messages st = []"
  by (simp add: latest_flight_text_def flight_messages_def split: list.splits)

lemma latest_flight_text_Some:
  assumes "latest_flight_text st = Some text"
  shows "flight_messages st \<noteq> []" "content (last (flight_messages st)) = text"
proof -
  from assms show ne: "flight_messages st \<noteq> []"
    by (auto simp: latest_flight_text_def flight_messages_def)
  then have "hd (rev (flight_messages st)) = last (flight_messages st)"
    by (simp add: hd_rev)
  with assms ne show "content (last (flight_messages st)) = text"
    by (auto simp: latest_flight_text_def flight_messages_def split: list.splits)
qed

lemma calculate_budget_status_no_flight:
  "latest_flight_text st = None \<Longrightarrow> calculate_budget_status st = error_result"
  by (simp add: latest_flight_text_None calculate_budget_status_def)

lemma calculate_budget_status_sentinel:
  assumes "latest_flight_text st = Some text"
    and "contains text ''not configured'' \<or> contains text ''API Error''"
  shows "calculate_budget_status st = error_result"
  using latest_flight_text_Some [OF assms(1)] assms(2)
  unfolding calculate_budget_status_def Let_def by simp

lemma calculate_budget_status_parsed:
  assumes "latest_flight_text st = Some text"
    and "\<not> contains text ''not configured''" "\<not> contains text ''API Error''"
    and "parse_price text = Inr (flight_price_eur, currency)"
  shows "calculate_budget_status st =
           empty_update
             \<lparr> flight_cost_eur := Some flight_price_eur,
               flight_carrier := Some (parse_carrier text),
               feasibility_status :=
                 Some (if float_ge (float_sub (user_budget (budget st))
                                      (price_usd flight_price_eur currency)) MIN_GROUND_COSTS_USD
                       then ''FEASIBLE'' else ''OVER_BUDGET''),
               remaining_budget_usd :=
                 Some (float_sub (user_budget (budget st)) (price_usd flight_price_eur currency)),
               flight_searched := Some True \<rparr>"
  using latest_flight_text_Some [OF assms(1)] assms(2-4)
  unfolding calculate_budget_status_def Let_def by simp

lemma error_result_fields:
  "feasibility_status error_result = Some ''ERROR''"
  "flight_cost_eur error_result = Some (Finite 0)"
  "flight_carrier error_result = Some ''Unknown''"
  "remaining_budget_usd error_result = Some (Finite 0)"
  "flight_searched error_result = Some True"
  by (simp_all add: error_result_def)

text \<open>
  Claim C5. \<open>calculate_budget_status\<close> is a total function into dictionaries: every
  operation that can raise sits in a \<^verbatim>\<open>try\<close> block. It returns the status \<open>ERROR\<close>
  exactly when the log has no result of the flight search, or the latest one contains
  \<open>not configured\<close> or \<open>API Error\<close>, or parsing that text raises; the dictionary is then
  \<open>error_result\<close>, whose cost and remaining budget are 0.0. (By \<open>parse_price_total\<close> the
  third case never arises for a text.)
\<close>

theorem calculate_budget_status_error:
  "(feasibility_status (calculate_budget_status st) = Some ''ERROR'' \<longleftrightarrow>
      (case latest_flight_text st of
         None \<Rightarrow> True
       | Some text \<Rightarrow> contains text ''not configured'' \<or> contains text ''API Error''
                      \<or> (\<exists>e. parse_price text = Inl e)))
   \<and> (feasibility_status (calculate_budget_status st) = Some ''ERROR'' \<longrightarrow>
        calculate_budget_status st = error_result)
   \<and> flight_cost_eur error_result = Some (Finite 0)
   \<and> remaining_budget_usd error_result = Some (Finite 0)"
proof (cases "latest_flight_text st")
  case None
  then show ?thesis
    by (simp add: calculate_budget_status_no_flight error_result_fields)
next
  case (Some t)
  show ?thesis
  proof (cases "contains t ''not configured'' \<or> contains t ''API Error''")
    case True
    with Some show ?thesis
      by (auto simp: calculate_budget_status_sentinel [OF Some True] error_result_fields)
  next
    case False
    show ?thesis
    proof (cases "parse_price t")
      case (Inl e)
      with Some False have "calculate_budget_status st = error_result"
        using latest_flight_text_Some [OF Some]
        unfolding calculate_budget_status_def Let_def by simp
      with Some Inl show ?thesis by (simp add: error_result_fields)
    next
      case (Inr g)
      obtain p c where g: "g = (p, c)" by (cases g)
      from False have n: "\<not> contains t ''not configured''" "\<not> contains t ''API Error''"
        by simp_all
      have "feasibility_status (calculate_budget_status st) \<noteq> Some ''ERROR''"
        unfolding calculate_budget_status_parsed [OF Some n Inr [unfolded g]] by simp
      with Some False Inr show ?thesis by (simp add: error_result_fields)
    qed
  qed
qed

theorem calculate_budget_status_error_witness:
  "calculate_budget_status empty_update = error_result"
proof -
  have "latest_flight_text empty_update = None"
    by (simp add: latest_flight_text_def empty_update_def)
  then show ?thesis
    using calculate_budget_status_error [of empty_update] by simp
qed

subsection \<open>A result text without a price\<close>

lemma parse_price_no_match:
  "search_price t = None \<Longrightarrow> parse_price t = Inr (Finite 0, ''EUR'')"
  by (simp add: parse_price_def)

lemma parse_price_match:
  "search_price t = Some (number, cur) \<Longrightarrow> float_of_str number = Inr p
     \<Longrightarrow> parse_price t = Inr (p, cur)"
  by (simp add: parse_price_def)

lemma float_sub_user_budget_zero:
  "float_sub (user_budget b) (Finite 0) = user_budget b"
proof -
  obtain q where "user_budget b = round_double q" using user_budget_rounded by blast
  then show ?thesis by (simp add: float_sub_rounded_zero)
qed

text \<open>
  Claim C10. When the latest flight result contains neither \<open>not configured\<close> nor
  \<open>API Error\<close> and the price pattern matches nowhere in it, the status is not \<open>ERROR\<close>:
  the flight price is 0.0, the remaining budget is the parsed user budget, and the
  status is \<open>FEASIBLE\<close> when that budget is at least 300.0 and \<open>OVER_BUDGET\<close> otherwise.
\<close>

theorem calculate_budget_status_no_price:
  assumes "latest_flight_text st = Some t"
    and "\<not> contains t ''not configured''" "\<not> contains t ''API Error''"
    and "search_price t = None"
  shows "feasibility_status (calculate_budget_status st) \<noteq> Some ''ERROR''
       \<and> flight_cost_eur (calculate_budget_status st) = Some (Finite 0)
       \<and> remaining_budget_usd (calculate_budget_status st) = Some (user_budget (budget st))
       \<and> feasibility_status (calculate_budget_status st)
           = Some (if float_ge (user_budget (budget st)) (Finite 300)
                   then ''FEASIBLE'' else ''OVER_BUDGET'')"
  unfolding calculate_budget_status_parsed [OF assms(1-3) parse_price_no_match [OF assms(4)]]
  by (simp add: price_usd_zero float_sub_user_budget_zero MIN_GROUND_COSTS_USD_def)

lemma user_budget_2000: "user_budget (Some ''2000 USD'') = Finite 2000"
proof -
  have "search_digits ''2000 USD'' = Some ''2000''"
    by (simp add: search_digits_def is_digit_def)
  moreover have "float_of_str ''2000'' = Inr (round_double (of_int (dec_value ''2000'')))"
    by (rule float_of_str_digits) (simp_all add: is_digit_def)
  moreover have "dec_value ''2000'' = 2000" by (simp add: dec_value_def)
  moreover have "round_double (of_int 2000) = Finite (of_int 2000)"
    by (rule round_double_of_int) simp
  ultimately show ?thesis by (simp add: user_budget_def)
qed

lemma no_offers_text:
  "latest_flight_text no_offers_state = Some ''No flight offers found for this itinerary.''"
  "budget no_offers_state = Some ''2000 USD''"
  by (simp_all add: latest_flight_text_def no_offers_state_def flight_result_def)

lemma no_offers_search:
  "\<not> contains ''No flight offers found for this itinerary.'' ''not configured''"
  "\<not> contains ''No flight offers found for this itinerary.'' ''API Error''"
  "search_price ''No flight offers found for this itinerary.'' = None"
  by code_simp+

theorem calculate_budget_status_no_price_witness:
  "flight_cost_eur (calculate_budget_status no_offers_state) = Some (Finite 0)
   \<and> remaining_budget_usd (calculate_budget_status no_offers_state) = Some (Finite 2000)
   \<and> feasibility_status (calculate_budget_status no_offers_state) = Some ''FEASIBLE''"
  using calculate_budget_status_no_price [OF no_offers_text(1) no_offers_search]
  by (simp add: no_offers_text(2) user_budget_2000)

text \<open>
  Claim C2, as the specification states it, fails: a result text of the flight search
  that contains \<open>API Error\<close> gives the status \<open>ERROR\<close> and a remaining budget of 0.0
  although the price pattern matches in it (512.30 EUR) and the budget text holds an
  integer (2000).
\<close>

theorem calculate_budget_status_api_error_counterexample:
  "latest_flight_text api_error_state = Some api_error_text
   \<and> search_price api_error_text = Some (''512.30'', ''EUR'')
   \<and> budget api_error_state = Some ''2000 USD''
   \<and> feasibility_status (calculate_budget_status api_error_state) = Some ''ERROR''
   \<and> remaining_budget_usd (calculate_budget_status api_error_state) = Some (Finite 0)"
proof -
  have t: "latest_flight_text api_error_state = Some api_error_text"
    "budget api_error_state = Some ''2000 USD''"
    by (simp_all add: latest_flight_text_def api_error_state_def flight_result_def)
  have s: "search_price api_error_text = Some (''512.30'', ''EUR'')"
    by code_simp
  have c: "contains api_error_text ''API Error''"
    by code_simp
  from c have "calculate_budget_status api_error_state = error_result"
    by (intro calculate_budget_status_sentinel [OF t(1)]) simp
  with t s show ?thesis by (simp add: error_result_fields)
qed

text \<open>
  Claim C2, amended. For a latest flight result that contains neither \<open>not configured\<close>
  nor \<open>API Error\<close> and whose first match of the price pattern gives the number text and
  the currency \<open>C\<close>: the number text is a float literal, \<open>P\<close> say; the price in dollars is
  \<open>P\<close> times the double nearest to 1.07 when \<open>C\<close> is \<open>EUR\<close> and \<open>P\<close> itself otherwise;
  the remaining budget is the user's budget minus that price; the status is \<open>FEASIBLE\<close>
  when the remaining budget is at least 300.0 and \<open>OVER_BUDGET\<close> otherwise. The
  arithmetic is that of IEEE doubles.
\<close>

theorem calculate_budget_status_priced:
  assumes "latest_flight_text st = Some t"
    and "\<not> contains t ''not configured''" "\<not> contains t ''API Error''"
    and "search_price t = Some (number, C)"
  shows "\<exists>P. float_of_str number = Inr P
       \<and> calculate_budget_status st =
           (let priceUSD = (if C = ''EUR''
                            then float_mul P (Finite (4818851601286431 / 4503599627370496))
                            else P);
                remaining = float_sub (user_budget (budget st)) priceUSD
            in empty_update
                 \<lparr> flight_cost_eur := Some P,
                   flight_carrier := Some (parse_carrier t),
                   feasibility_status :=
                     Some (if float_ge remaining (Finite 300) then ''FEASIBLE'' else ''OVER_BUDGET''),
                   remaining_budget_usd := Some remaining,
                   flight_searched := Some True \<rparr>)"
proof -
  from search_price_number [OF assms(4)] obtain P where P: "float_of_str number = Inr P"
    by blast
  have "calculate_budget_status st =
           (let priceUSD = (if C = ''EUR''
                            then float_mul P (Finite (4818851601286431 / 4503599627370496))
                            else P);
                remaining = float_sub (user_budget (budget st)) priceUSD
            in empty_update
                 \<lparr> flight_cost_eur := Some P,
                   flight_carrier := Some (parse_carrier t),
                   feasibility_status :=
                     Some (if float_ge remaining (Finite 300) then ''FEASIBLE'' else ''OVER_BUDGET''),
                   remaining_budget_usd := Some remaining,
                   flight_searched := Some True \<rparr>)"
    unfolding calculate_budget_status_parsed [OF assms(1-3) parse_price_match [OF assms(4) P]]
      Let_def price_usd_def EUR_TO_USD_RATE_value MIN_GROUND_COSTS_USD_def
    by (rule refl)
  with P show ?thesis by blast
qed

lemma offer_text:
  "latest_flight_text offer_state = Some flight_text"
  "budget offer_state = Some ''2000 USD''"
  by (simp_all add: latest_flight_text_def offer_state_def flight_result_def)

lemma offer_search:
  "\<not> contains flight_text ''not configured''"
  "\<not> contains flight_text ''API Error''"
  "search_price flight_text = Some (''1234.50'', ''EUR'')"
  by code_simp+

lemma offer_carrier: "parse_carrier flight_text = ''Emirates''"
  by code_simp

lemma round_half_even_int_numeral: "round_half_even (numeral a) = numeral a"
  using round_half_even_of_int [of "numeral a"] by simp

lemma offer_price: "float_of_str ''1234.50'' = Inr (Finite (2469 / 2))"
proof -
  have "float_of_str (''1234'' @ [CHR ''.''] @ ''50'')
          = Inr (round_double (of_int (dec_value (''1234'' @ ''50'')) / 10 ^ length ''50''))"
    by (rule float_of_str_dotted) (simp_all add: is_digit_def)
  moreover have "dec_value ''123450'' = 123450" by (simp add: dec_value_def)
  moreover have "round_double (2469 / 2) = Finite (of_int 5429388417957888 * pow2 (10 - 52))"
    by (rule round_double_normal) (simp_all add: pow2_def round_half_even_int_numeral)
  ultimately show ?thesis by (simp add: pow2_def)
qed

lemma offer_usd:
  "float_mul (Finite (2469 / 2)) (Finite (4818851601286431 / 4503599627370496))
     = Finite (1452361401803735 / 1099511627776)"
proof -
  have "round_double (2469 / 2 * (4818851601286431 / 4503599627370496))
          = Finite (of_int 5809445607214940 * pow2 (10 - 52))"
    by (rule round_double_normal) (simp_all add: pow2_def round_half_even_numeral Let_def)
  then show ?thesis by (simp add: pow2_def)
qed

lemma offer_remaining:
  "float_sub (Finite 2000) (Finite (1452361401803735 / 1099511627776))
     = Finite (746661853748265 / 1099511627776)"
proof -
  have "round_double (2000 - 1452361401803735 / 1099511627776)
          = Finite (of_int 5973294829986120 * pow2 (9 - 52))"
    by (rule round_double_normal) (simp_all add: pow2_def round_half_even_int_numeral)
  then show ?thesis by (simp add: pow2_def)
qed

lemma offer_feasible:
  "float_ge (Finite (746661853748265 / 1099511627776)) (Finite 300)"
  by simp

theorem calculate_budget_status_priced_witness:
  "calculate_budget_status offer_state =
     empty_update
       \<lparr> flight_cost_eur := Some (Finite (2469 / 2)),
         flight_carrier := Some ''Emirates'',
         feasibility_status := Some ''FEASIBLE'',
         remaining_budget_usd := Some (Finite (746661853748265 / 1099511627776)),
         flight_searched := Some True \<rparr>"
proof -
  from calculate_budget_status_priced [OF offer_text(1) offer_search]
  obtain P where P: "float_of_str ''1234.50'' = Inr P"
    and r: "calculate_budget_status offer_state =
           (let priceUSD = (if ''EUR'' = ''EUR''
                            then float_mul P (Finite (4818851601286431 / 4503599627370496))
                            else P);
                remaining = float_sub (user_budget (budget offer_state)) priceUSD
            in empty_update
                 \<lparr> flight_cost_eur := Some P,
                   flight_carrier := Some (parse_carrier flight_text),
                   feasibility_status :=
                     Some (if float_ge remaining (Finite 300) then ''FEASIBLE'' else ''OVER_BUDGET''),
                   remaining_budget_usd := Some remaining,
                   flight_searched := Some True \<rparr>)"
    by blast
  from P have v: "P = Finite (2469 / 2)" by (simp add: offer_price)
  show ?thesis
    unfolding r v Let_def offer_text(2) user_budget_2000 offer_carrier
    by (simp only: simp_thms if_True offer_usd offer_remaining offer_feasible)
qed

section \<open>The flight flag along a thread\<close>

lemma error_result_flight_searched: "flight_searched error_result = Some True"
  by (simp add: error_result_def)

lemma calculate_budget_status_sets_flag:
  "flight_searched (calculate_budget_status st) = Some True"
  unfolding calculate_budget_status_def Let_def
  by (simp add: error_result_flight_searched split: sum.split prod.split)

lemma new_state_flight_searched: "flight_searched (new_state args) = None"
  unfolding new_state_def Let_def
  by (simp add: empty_update_def split: sum.split)

lemma update_state_flight_searched: "flight_searched (update_state st) = None"
  unfolding update_state_def
  by (simp add: new_state_flight_searched empty_update_def split: option.split)

lemma flight_searched_apply_update:
  "flight_searched (apply_update st u) = write_key (flight_searched st) (flight_searched u)"
  by (simp add: apply_update_def)

lemma flight_searched_set_last_tool_calls:
  "flight_searched (set_last_tool_calls cs st) = flight_searched st"
  by (simp add: set_last_tool_calls_def)

lemma tools_condition_flight_searched:
  assumes "tools_condition st = Inr (next_node, st')"
  shows "flight_searched st' = flight_searched st"
proof -
  have "st' = st \<or> (\<exists>cs. st' = set_last_tool_calls cs st)"
    using assms unfolding tools_condition_def Let_def
    by (auto split: if_splits)
  then show ?thesis by (auto simp: flight_searched_set_last_tool_calls)
qed

lemma run_step_keeps_flight_searched:
  assumes "flight_searched st = Some True"
  shows "flight_searched (run_step st s) = Some True"
proof (cases s)
  case Tools_condition
  show ?thesis
  proof (cases "tools_condition st")
    case (Inl e)
    with Tools_condition assms show ?thesis by simp
  next
    case (Inr p)
    obtain next_node st' where p: "p = (next_node, st')" by (cases p)
    from tools_condition_flight_searched [of st next_node st'] Inr p
    have "flight_searched st' = flight_searched st" by simp
    with Tools_condition Inr p assms show ?thesis by simp
  qed
next
  case Extract_data
  with assms show ?thesis
    by (simp add: flight_searched_apply_update update_state_flight_searched write_key_def)
next
  case Budget_check
  then show ?thesis
    by (simp add: flight_searched_apply_update calculate_budget_status_sets_flag write_key_def)
qed (use assms in \<open>simp_all add: flight_searched_apply_update write_key_def empty_update_def
       mark_hotel_complete_def mark_activities_complete_def mark_directions_done_def\<close>)

lemma run_steps_keep_flight_searched:
  "flight_searched st = Some True \<Longrightarrow> flight_searched (run_steps st steps) = Some True"
  unfolding run_steps_def
  by (induction steps arbitrary: st) (simp_all add: run_step_keeps_flight_searched)

lemma budget_check_sets_flag: "flight_searched (run_step st Budget_check) = Some True"
  by (simp add: flight_searched_apply_update calculate_budget_status_sets_flag write_key_def)

lemma next_tool_flight_done:
  "snd (next_tool st True h a) \<noteq> Some ''amadeus_flight_search''"
  by (simp add: next_tool_def)

lemma chatbot_flight_done:
  assumes "flight_searched st = Some True"
  shows "requested_tool (chatbot st) \<noteq> Some ''amadeus_flight_search''"
proof -
  from assms have f: "get_flag (flight_searched st)" by (simp add: get_flag_eq)
  show ?thesis
  proof (cases "(get_flag (hotel_searched st) \<or> has_result ''quick_hotel_search'' (messages st))
            \<and> (get_flag (activities_searched st)
                 \<or> has_result ''google_search_activities'' (messages st))")
    case True
    with f show ?thesis
      by (simp add: chatbot_all_done requested_tool_def)
  next
    case False
    with f have n: "\<not> ((get_flag (flight_searched st) \<or> has_result ''amadeus_flight_search'' (messages st))
            \<and> (get_flag (hotel_searched st) \<or> has_result ''quick_hotel_search'' (messages st))
            \<and> (get_flag (activities_searched st)
                 \<or> has_result ''google_search_activities'' (messages st)))"
      by simp
    from next_tool_flight_done [of st]
    show ?thesis
      unfolding chatbot_not_all_done [OF n] requested_tool_def using f
      by (simp add: case_prod_beta)
  qed
qed

text \<open>
  Claim C9. Every dictionary \<open>calculate_budget_status\<close> returns sets \<open>flight_searched\<close> to
  true, on the error paths as on the others. So from the budget stage on, whatever
  nodes run and whatever the model, the tools and the user add to the thread, the flag
  stays true and the tool that \<open>chatbot\<close> asks the model to call is never the flight
  search.
\<close>

theorem budget_stage_closes_flight_search:
  "flight_searched (calculate_budget_status st) = Some True
   \<and> flight_searched (run_steps (run_step st Budget_check) steps) = Some True
   \<and> requested_tool (chatbot (run_steps (run_step st Budget_check) steps))
        \<noteq> Some ''amadeus_flight_search''"
  using calculate_budget_status_sets_flag [of st]
    run_steps_keep_flight_searched [OF budget_check_sets_flag, of st steps]
    chatbot_flight_done [OF run_steps_keep_flight_searched [OF budget_check_sets_flag], of st steps]
  by simp

section \<open>Properties of the extraction stage\<close>




subsection \<open>The derived duration\<close>






subsection \<open>What the extraction writes over the state\<close>














end
